theory Spec2Isabelle
  imports Complex_Main "HOL-Library.Sublist"
begin

section \<open>Python values, errors and strings\<close>

text \<open>
  The exceptions that the modelled code can raise. Every function that can raise returns
  a sum: \<open>Inl\<close> carries the exception, \<open>Inr\<close> the value returned.
\<close>

datatype py_error =
    AttributeError
  | KeyError string
  | IndexError
  | TypeError
  | ValueError

text \<open>
  \<open>str(i)\<close> for a Python integer: decimal digits, with a leading minus sign for a
  negative number. It renders the integers interpolated by the f-strings of
  \<open>fitting.py\<close>.
\<close>

definition digit_char :: "nat \<Rightarrow> char" where
  "digit_char n = ''0123456789'' ! n"

function str_nat :: "nat \<Rightarrow> string" where
  "str_nat n = (if n < 10 then [digit_char n] else str_nat (n div 10) @ [digit_char (n mod 10)])"
  by pat_completeness auto
termination
  by (relation "measure id") auto

definition str_int :: "int \<Rightarrow> string" where
  "str_int i = (if i < 0 then CHR ''-'' # str_nat (nat (- i)) else str_nat (nat i))"

section \<open>Fitting: the categorical distance between two ratings\<close>

text \<open>
  \<open>Fitting.likert_score_feedback\<close> (\<open>fitting.py\<close>, lines 56 to 95). The function returns
  a pair: the category and a detail sentence. The two detection checks come first, in the
  order of the source; the magnitude of the difference is looked at only afterwards.
\<close>

definition likert_score_feedback :: "int \<Rightarrow> int \<Rightarrow> string \<times> string" where
  "likert_score_feedback metric_score human_score =
     (let difference = \<bar>metric_score - human_score\<bar> in
      if metric_score = 0 \<and> human_score \<ge> 1 then
        (''Error Detection Discrepancy'',
         ''Metric: 0 vs. Human: '' @ str_int human_score @ '' (Human detects an error).'')
      else if metric_score \<ge> 1 \<and> human_score = 0 then
        (''Error Detection Discrepancy'',
         ''Metric: '' @ str_int metric_score @ '' vs. Human: 0 (Metric detects an error).'')
      else if difference = 0 then
        (''No Difference'',
         ''Scores match exactly. (Human: '' @ str_int human_score @ ''; Metric: ''
           @ str_int metric_score @ '')'')
      else if difference = 1 then
        (''Minor Difference'',
         ''Scores differ by 1 point. (Human: '' @ str_int human_score @ ''; Metric: ''
           @ str_int metric_score @ '')'')
      else if difference = 2 then
        (''Moderate Difference'',
         ''Scores differ by 2 points. (Human: '' @ str_int human_score @ ''; Metric: ''
           @ str_int metric_score @ '')'')
      else
        (''Major Difference'',
         ''Scores differ by >= 3 points. (Human: '' @ str_int human_score @ ''; Metric: ''
           @ str_int metric_score @ '')''))"

section \<open>Python values\<close>

text \<open>
  The values that \<open>json.loads\<close> produces and that the pipelines pass around. A dict is
  an association list, in insertion order. Floats are idealised as reals: rounding, NaN
  and the infinities are outside the model.
\<close>

datatype pyval =
    PNone
  | PBool bool
  | PInt int
  | PFloat real
  | PStr string
  | PList "pyval list"
  | PDict "(string \<times> pyval) list"

text \<open>Sequencing of computations that may raise.\<close>

definition py_bind :: "py_error + 'a \<Rightarrow> ('a \<Rightarrow> py_error + 'b) \<Rightarrow> py_error + 'b" where
  "py_bind m f = (case m of Inl e \<Rightarrow> Inl e | Inr v \<Rightarrow> f v)"

text \<open>\<open>d[k]\<close> with a string key: a missing key raises KeyError, a value that is not a
  dict raises TypeError.\<close>

fun py_getitem :: "pyval \<Rightarrow> string \<Rightarrow> py_error + pyval" where
  "py_getitem (PDict kvs) k = (case map_of kvs k of None \<Rightarrow> Inl (KeyError k) | Some v \<Rightarrow> Inr v)"
| "py_getitem _ k = Inl TypeError"

text \<open>\<open>d.get(k, default)\<close> on a dict.\<close>

definition py_dict_get :: "(string \<times> 'a) list \<Rightarrow> string \<Rightarrow> 'a \<Rightarrow> 'a" where
  "py_dict_get kvs k dflt = (case map_of kvs k of None \<Rightarrow> dflt | Some v \<Rightarrow> v)"

text \<open>\<open>s.upper()\<close>: the ASCII letters a to z become A to Z. Characters outside ASCII
  are left as they are (their Unicode case mappings are outside the model). A value that
  is not a string has no method \<open>upper\<close>.\<close>

definition py_upper_char :: "char \<Rightarrow> char" where
  "py_upper_char c =
     (let n = (of_char c :: nat) in if 97 \<le> n \<and> n \<le> 122 then char_of (n - 32) else c)"

definition py_upper :: "string \<Rightarrow> string" where
  "py_upper s = map py_upper_char s"

fun py_str_upper :: "pyval \<Rightarrow> py_error + string" where
  "py_str_upper (PStr s) = Inr (py_upper s)"
| "py_str_upper _ = Inl AttributeError"

text \<open>The numeric value of an operand of \<open>*\<close> and \<open>+\<close>; a bool counts as 0 or 1. Any
  other operand makes the arithmetic of \<open>compute_quality_score\<close> raise TypeError.\<close>

fun py_number :: "pyval \<Rightarrow> py_error + real" where
  "py_number (PInt i) = Inr (of_int i)"
| "py_number (PFloat r) = Inr r"
| "py_number (PBool b) = Inr (if b then 1 else 0)"
| "py_number _ = Inl TypeError"

section \<open>Quality aggregation\<close>

text \<open>
  \<open>EvalPipeline.compute_quality_score\<close> (\<open>eval_pipeline.py\<close>, lines 85 to 125). The
  default weights are keyed by lower-case names; the loop looks up the upper-cased
  criterion name.
\<close>

definition default_importance_weights :: "(string \<times> real) list" where
  "default_importance_weights =
     [(''omission'', 11 / 10), (''hallucination'', 11 / 10), (''irrelevance'', 11 / 10),
      (''repetition'', 9 / 10), (''incoherence'', 9 / 10), (''language'', 9 / 10)]"

text \<open>The body of the \<open>for entry in scores\<close> loop, on the pair (numerator,
  denominator).\<close>

definition quality_step ::
  "(string \<times> real) list \<Rightarrow> pyval \<Rightarrow> real \<times> real \<Rightarrow> py_error + real \<times> real" where
  "quality_step importance_weights entry acc =
     py_bind (py_getitem entry ''criteria'') (\<lambda>cv.
     py_bind (py_str_upper cv) (\<lambda>criteria.
     py_bind (py_getitem entry ''certainty'') (\<lambda>certainty_v.
     py_bind (py_getitem entry ''rating'') (\<lambda>rating_v.
     let importance = py_dict_get importance_weights criteria 1 in
     py_bind (py_number certainty_v) (\<lambda>certainty.
     py_bind (py_number rating_v) (\<lambda>rating.
     let weighted_value = rating * (certainty * importance) in
     Inr (fst acc + weighted_value, snd acc + certainty * importance)))))))"

fun quality_loop ::
  "(string \<times> real) list \<Rightarrow> pyval list \<Rightarrow> real \<times> real \<Rightarrow> py_error + real \<times> real" where
  "quality_loop importance_weights [] acc = Inr acc"
| "quality_loop importance_weights (entry # rest) acc =
     py_bind (quality_step importance_weights entry acc) (quality_loop importance_weights rest)"

definition compute_quality_score ::
  "pyval list \<Rightarrow> (string \<times> real) list option \<Rightarrow> py_error + real" where
  "compute_quality_score scores importance_weights =
     (let weights = (case importance_weights of None \<Rightarrow> default_importance_weights
                     | Some ws \<Rightarrow> ws) in
      py_bind (quality_loop weights scores (0, 0)) (\<lambda>(numerator, denominator).
      let impact = (if denominator \<noteq> 0 then numerator / denominator else 0);
          quality = 1 + ((5 - impact) / 5) * 9
      in Inr quality))"




section \<open>The model invoker\<close>

text \<open>
  \<open>ModelHandler.call_model_with_retry\<close> (\<open>model_handler.py\<close>, lines 24 to 73). The
  backend is outside the program: the client is a function from the attempt number to
  what \<open>_call_gpt\<close> does at that attempt, either returning a response or raising an
  exception with the message \<open>str(exc)\<close>. The effects are recorded in a trace: every
  call of the backend and every \<open>time.sleep\<close>, in order. \<open>time.sleep\<close> raises ValueError
  on a negative argument. \<open>random.randint(0, 1000)\<close> takes its value from a stream of
  random draws, one per rate-limited attempt.
\<close>

datatype 'r outcome = Returns 'r | Raises string

datatype event = Call nat | Sleep real

text \<open>How the body of the \<open>for attempt in range(max_attempts)\<close> loop ends: it falls
  through to the next attempt, breaks, returns, or lets an exception escape.\<close>

datatype 'r flow = Continue | Break | Return 'r | Raise py_error

text \<open>\<open>needle in haystack\<close> on strings.\<close>

fun py_in :: "string \<Rightarrow> string \<Rightarrow> bool" where
  "py_in needle [] = (needle = [])"
| "py_in needle (c # cs) = (take (length needle) (c # cs) = needle \<or> py_in needle cs)"

definition time_sleep :: "real \<Rightarrow> event list \<Rightarrow> (py_error + unit) \<times> event list" where
  "time_sleep secs trace =
     (if secs < 0 then (Inl ValueError, trace) else (Inr (), trace @ [Sleep secs]))"

definition randint_0_1000 :: "(nat \<Rightarrow> nat) \<Rightarrow> nat \<Rightarrow> nat" where
  "randint_0_1000 rng draw = rng draw mod 1001"

text \<open>The \<open>finally\<close> clause: it sleeps \<open>base_delay\<close> and then lets the pending
  outcome of the \<open>try\<close> statement through; an exception of its own replaces it.\<close>

definition finally_sleep ::
  "real \<Rightarrow> 'r flow \<Rightarrow> event list \<Rightarrow> 'r flow \<times> event list" where
  "finally_sleep base_delay pending trace =
     (case time_sleep base_delay trace of
        (Inl e, trace') \<Rightarrow> (Raise e, trace')
      | (Inr _, trace') \<Rightarrow> (pending, trace'))"

definition attempt_body ::
  "(nat \<Rightarrow> 'r outcome) \<Rightarrow> (nat \<Rightarrow> nat) \<Rightarrow> real \<Rightarrow> nat \<Rightarrow> event list
     \<Rightarrow> 'r option flow \<times> event list" where
  "attempt_body client rng base_delay attempt trace =
     (case client attempt of
        Returns response \<Rightarrow>
          finally_sleep base_delay (Return (Some response)) (trace @ [Call attempt])
      | Raises msg \<Rightarrow>
          if py_in ''429'' msg then
            (let sleep_time = 2 ^ (attempt + 1) + real (randint_0_1000 rng attempt) / 1000 in
             case time_sleep sleep_time (trace @ [Call attempt]) of
               (Inl e, trace') \<Rightarrow> finally_sleep base_delay (Raise e) trace'
             | (Inr _, trace') \<Rightarrow> finally_sleep base_delay Continue trace')
          else finally_sleep base_delay Break (trace @ [Call attempt]))"

fun retry_loop ::
  "(nat \<Rightarrow> 'r outcome) \<Rightarrow> (nat \<Rightarrow> nat) \<Rightarrow> real \<Rightarrow> nat list \<Rightarrow> event list
     \<Rightarrow> (py_error + 'r option) \<times> event list" where
  "retry_loop client rng base_delay [] trace = (Inr None, trace)"
| "retry_loop client rng base_delay (attempt # rest) trace =
     (case attempt_body client rng base_delay attempt trace of
        (Continue, trace') \<Rightarrow> retry_loop client rng base_delay rest trace'
      | (Break, trace') \<Rightarrow> (Inr None, trace')
      | (Return r, trace') \<Rightarrow> (Inr r, trace')
      | (Raise e, trace') \<Rightarrow> (Inl e, trace'))"

definition call_model_with_retry ::
  "(nat \<Rightarrow> 'r outcome) \<Rightarrow> (nat \<Rightarrow> nat) \<Rightarrow> int \<Rightarrow> real
     \<Rightarrow> (py_error + 'r option) \<times> event list" where
  "call_model_with_retry client rng max_attempts base_delay =
     retry_loop client rng base_delay [0..<nat max_attempts] []"

text \<open>
  The vocabulary of the retry policy: an attempt is rate-limited when it raises with
  "429" in the message; its backoff is the sleep of the \<open>except\<close> clause; its events are
  the call, the backoff if it is rate-limited, and the \<open>base_delay\<close> sleep. The attempts
  made are the leading rate-limited ones and the first that is not, if there is one; the
  final result is the response of that one if it returned, and None otherwise.
\<close>

definition is_rate_limited :: "(nat \<Rightarrow> 'r outcome) \<Rightarrow> nat \<Rightarrow> bool" where
  "is_rate_limited client attempt =
     (case client attempt of Returns _ \<Rightarrow> False | Raises msg \<Rightarrow> py_in ''429'' msg)"

definition backoff :: "(nat \<Rightarrow> nat) \<Rightarrow> nat \<Rightarrow> real" where
  "backoff rng attempt = 2 ^ (attempt + 1) + real (randint_0_1000 rng attempt) / 1000"

definition attempt_events ::
  "(nat \<Rightarrow> 'r outcome) \<Rightarrow> (nat \<Rightarrow> nat) \<Rightarrow> real \<Rightarrow> nat \<Rightarrow> event list" where
  "attempt_events client rng base_delay attempt =
     Call attempt #
     (if is_rate_limited client attempt then [Sleep (backoff rng attempt)] else [])
     @ [Sleep base_delay]"

fun attempts_made :: "(nat \<Rightarrow> bool) \<Rightarrow> nat list \<Rightarrow> nat" where
  "attempts_made limited [] = 0"
| "attempts_made limited (a # rest) =
     (if limited a then Suc (attempts_made limited rest) else 1)"

definition final_result :: "(nat \<Rightarrow> 'r outcome) \<Rightarrow> nat list \<Rightarrow> 'r option" where
  "final_result client attempts =
     (case dropWhile (is_rate_limited client) attempts of
        [] \<Rightarrow> None
      | a # _ \<Rightarrow> (case client a of Returns r \<Rightarrow> Some r | Raises _ \<Rightarrow> None))"

section \<open>Response parsing\<close>

text \<open>
  \<open>str.strip()\<close> removes leading and trailing whitespace; \<open>str.strip(chars)\<close> removes
  from both ends every character that occurs in \<open>chars\<close>, which is a set of characters
  and not a prefix or suffix. Whitespace is the ASCII whitespace of \<open>str.isspace\<close>.
\<close>

definition py_isspace :: "char \<Rightarrow> bool" where
  "py_isspace c = ((of_char c :: nat) \<in> set [9, 10, 11, 12, 13, 28, 29, 30, 31, 32])"

definition py_strip_chars :: "string \<Rightarrow> string \<Rightarrow> string" where
  "py_strip_chars chars s =
     rev (dropWhile (\<lambda>c. c \<in> set chars) (rev (dropWhile (\<lambda>c. c \<in> set chars) s)))"

definition py_strip :: "string \<Rightarrow> string" where
  "py_strip s = rev (dropWhile py_isspace (rev (dropWhile py_isspace s)))"

text \<open>
  The expression that every call site applies to the content of a reply before
  \<open>json.loads\<close>: \<open>content.strip().strip("```json").strip("```").strip()\<close>
  (\<open>baseline_pipeline.py\<close> lines 103 and 104, \<open>simple_baseline_pipeline.py\<close> lines 116 and
  117, \<open>eval_pipeline.py\<close> lines 251 and 252, \<open>panel.py\<close> lines 222 and 226).
\<close>

definition strip_code_fence :: "string \<Rightarrow> string" where
  "strip_code_fence content =
     py_strip (py_strip_chars ''```'' (py_strip_chars ''```json'' (py_strip content)))"

section \<open>Prompts, the invoker as the pipelines see it, and the decoder\<close>

text \<open>
  An f-string is the list of its parts: literal text, and the values it interpolates. An
  interpolated string is text; any other interpolated value stays a value, its rendering
  by \<open>str\<close> is not modelled. Where a prompt is interpolated into another prompt, its
  parts are spliced in. A message is the pair of the system and the user prompt.

  The pipelines call \<open>ModelHandler.call_model_with_retry\<close> and read
  \<open>response.choices[0].message.content\<close>. The invoker gives, for the number of the call
  within the run and its message, that content, or None when
  \<open>call_model_with_retry\<close> returned its sentinel None. \<open>json.loads\<close> is the decoder: it
  gives None where \<open>json.loads\<close> raises JSONDecodeError.
\<close>

datatype fpart = Lit string | Interp pyval

type_synonym fstring = "fpart list"

text \<open>The value interpolated into an f-string: a string is rendered as its text.\<close>

fun interpolated :: "pyval \<Rightarrow> fpart" where
  "interpolated (PStr s) = Lit s"
| "interpolated v = Interp v"

type_synonym message = "fstring \<times> fstring"

type_synonym invoker = "nat \<Rightarrow> message \<Rightarrow> string option"

type_synonym decoder = "string \<Rightarrow> pyval option"

record sample =
  transcript :: string
  summary :: string

definition nl :: string where
  "nl = [CHR 0x0A]"

definition dq :: string where
  "dq = [CHR 0x22]"

text \<open>The score format that the one-by-one prompt and the third step of the three-step
  prompt spell out.\<close>

definition rating_format :: string where
  "rating_format =
     ''{'' @ nl @
     ''  '' @ dq @ ''reasoning'' @ dq @ '': '' @ dq @ ''<your reasoning>'' @ dq @ '','' @ nl @
     ''  '' @ dq @ ''confidence'' @ dq @ '': <0-10>,'' @ nl @
     ''  '' @ dq @ ''rating'' @ dq @ '': <0-5>'' @ nl @
     ''}''"

text \<open>The score substituted for a reply that cannot be decoded.\<close>

definition zeroed_score :: pyval where
  "zeroed_score = PDict [(''reasoning'', PStr ''''), (''confidence'', PInt 0), (''rating'', PInt 0)]"

section \<open>The one-by-one pipeline\<close>

text \<open>\<open>BaselinePipeline.pipeline\<close> and \<open>BaselinePipeline.run\<close> (\<open>baseline_pipeline.py\<close>, lines
  54 to 113). Reading \<open>choices\<close> of the sentinel None raises AttributeError.\<close>

definition BaselinePipeline_system_prompt :: fstring where
  "BaselinePipeline_system_prompt =
     [Lit (''You are an expert in evaluating meeting summaries for specific types of errors.''
        @ ''You will be given the transcript and summary, plus one criterion definition.''
        @ ''Output strictly in JSON with keys: reasoning, confidence, rating.'')]"

definition BaselinePipeline_user_prompt :: "sample \<Rightarrow> string \<Rightarrow> string \<Rightarrow> fstring" where
  "BaselinePipeline_user_prompt data criteria_name definition_text =
     [Lit ''Transcript: <'', Lit (transcript data), Lit (''>'' @ nl),
      Lit ''Summary: <'', Lit (summary data), Lit (''>'' @ nl),
      Lit ''Criterion: '', Lit criteria_name, Lit '': '', Lit definition_text, Lit nl,
      Lit ''Rate the summary from 0 to 5 (0=best, 5=worst). '',
      Lit (''Also provide reasoning and a confidence from 0 to 10. Return strictly JSON:'' @ nl),
      Lit rating_format]"

definition BaselinePipeline_pipeline ::
  "decoder \<Rightarrow> invoker \<Rightarrow> nat \<Rightarrow> sample \<Rightarrow> string \<Rightarrow> string \<Rightarrow> py_error + pyval" where
  "BaselinePipeline_pipeline loads invoke k data criteria_name definition_text =
     (let message = (BaselinePipeline_system_prompt,
                     BaselinePipeline_user_prompt data criteria_name definition_text) in
      case invoke k message of
        None \<Rightarrow> Inl AttributeError
      | Some content \<Rightarrow>
          (let response_text = strip_code_fence content in
           case loads response_text of
             Some parsed \<Rightarrow> Inr parsed
           | None \<Rightarrow> Inr zeroed_score))"

definition baseline_assessment :: "string \<Rightarrow> pyval \<Rightarrow> pyval" where
  "baseline_assessment criteria_name score =
     PDict [(''criteria'', PStr criteria_name), (''selection'', PStr ''''),
            (''filter'', PStr ''''), (''score'', score)]"

text \<open>The loop \<open>for criteria_name, definition_text in self.criteria.items()\<close>; \<open>k\<close> counts
  the calls of the invoker made so far.\<close>

fun BaselinePipeline_loop ::
  "decoder \<Rightarrow> invoker \<Rightarrow> sample \<Rightarrow> nat \<Rightarrow> (string \<times> string) list \<Rightarrow> pyval list
     \<Rightarrow> py_error + pyval list" where
  "BaselinePipeline_loop loads invoke data k [] scores = Inr scores"
| "BaselinePipeline_loop loads invoke data k ((criteria_name, definition_text) # rest) scores =
     py_bind (BaselinePipeline_pipeline loads invoke k data criteria_name definition_text)
       (\<lambda>score. BaselinePipeline_loop loads invoke data (Suc k) rest
                  (scores @ [baseline_assessment criteria_name score]))"

definition BaselinePipeline_run ::
  "decoder \<Rightarrow> invoker \<Rightarrow> (string \<times> string) list \<Rightarrow> sample \<Rightarrow> py_error + pyval list" where
  "BaselinePipeline_run loads invoke criteria data =
     BaselinePipeline_loop loads invoke data 0 criteria []"

section \<open>The all-at-once pipeline\<close>

text \<open>\<open>int(x)\<close>: an int stays, a float is truncated towards zero, a bool is 0 or 1, a
  string is parsed (surrounding whitespace, an optional sign, decimal digits with single
  underscores between them) or raises ValueError, anything else raises TypeError.\<close>

definition is_digit :: "char \<Rightarrow> bool" where
  "is_digit c = (48 \<le> (of_char c :: nat) \<and> (of_char c :: nat) \<le> 57)"

fun parse_digits :: "string \<Rightarrow> nat \<Rightarrow> bool \<Rightarrow> nat option" where
  "parse_digits [] acc after_digit = (if after_digit then Some acc else None)"
| "parse_digits (c # cs) acc after_digit =
     (if is_digit c then parse_digits cs (10 * acc + ((of_char c :: nat) - 48)) True
      else if c = CHR ''_'' \<and> after_digit \<and> cs \<noteq> [] then parse_digits cs acc False
      else None)"

definition int_of_str :: "string \<Rightarrow> int option" where
  "int_of_str s =
     (case py_strip s of
        [] \<Rightarrow> None
      | c # cs \<Rightarrow>
          if c = CHR ''-'' then map_option (\<lambda>n. - int n) (parse_digits cs 0 False)
          else if c = CHR ''+'' then map_option int (parse_digits cs 0 False)
          else map_option int (parse_digits (c # cs) 0 False))"

fun py_int :: "pyval \<Rightarrow> py_error + int" where
  "py_int (PInt i) = Inr i"
| "py_int (PFloat r) = Inr (if 0 \<le> r then \<lfloor>r\<rfloor> else \<lceil>r\<rceil>)"
| "py_int (PBool b) = Inr (if b then 1 else 0)"
| "py_int (PStr s) = (case int_of_str s of None \<Rightarrow> Inl ValueError | Some i \<Rightarrow> Inr i)"
| "py_int _ = Inl TypeError"

text \<open>\<open>x.get(k, default)\<close> and \<open>x.items()\<close>: only a dict has these methods.\<close>

fun py_get :: "pyval \<Rightarrow> string \<Rightarrow> pyval \<Rightarrow> py_error + pyval" where
  "py_get (PDict kvs) k dflt = Inr (py_dict_get kvs k dflt)"
| "py_get _ k dflt = Inl AttributeError"

fun py_items :: "pyval \<Rightarrow> py_error + (string \<times> pyval) list" where
  "py_items (PDict kvs) = Inr kvs"
| "py_items _ = Inl AttributeError"

text \<open>\<open>SimpleBaselinePipeline.pipeline\<close> and \<open>SimpleBaselinePipeline.run\<close>
  (\<open>simple_baseline_pipeline.py\<close>, lines 59 to 125).\<close>

definition SimpleBaselinePipeline_system_prompt :: fstring where
  "SimpleBaselinePipeline_system_prompt =
     [Lit (''You are an expert in meeting summarization quality assessment. ''
        @ ''You will see multiple criteria definitions and evaluate them in one shot.'')]"

fun combined_criteria :: "(string \<times> string) list \<Rightarrow> string" where
  "combined_criteria [] = ''''"
| "combined_criteria ((crit, definition_text) # rest) =
     crit @ '': '' @ definition_text @ nl @ combined_criteria rest"

definition SimpleBaselinePipeline_user_prompt ::
  "sample \<Rightarrow> (string \<times> string) list \<Rightarrow> fstring" where
  "SimpleBaselinePipeline_user_prompt data criteria_dict =
     [Lit ''Transcript: <'', Lit (transcript data), Lit (''>'' @ nl),
      Lit ''Summary: <'', Lit (summary data), Lit (''>'' @ nl),
      Lit (''Criteria Definitions:'' @ nl), Lit (combined_criteria criteria_dict), Lit (nl @ nl),
      Lit (''Please return a JSON object mapping each criterion name to:'' @ nl),
      Lit (''{'' @ nl
        @ ''   '' @ dq @ ''reasoning'' @ dq @ '': '' @ dq @ ''<chain-of-thought>'' @ dq @ '','' @ nl
        @ ''   '' @ dq @ ''confidence'' @ dq @ '': <0-10>,'' @ nl
        @ ''   '' @ dq @ ''rating'' @ dq @ '': <0-5>'' @ nl
        @ ''}'' @ nl),
      Lit ''No extra text outside the JSON.'']"

definition SimpleBaselinePipeline_pipeline ::
  "decoder \<Rightarrow> invoker \<Rightarrow> sample \<Rightarrow> (string \<times> string) list \<Rightarrow> py_error + pyval" where
  "SimpleBaselinePipeline_pipeline loads invoke data criteria_dict =
     (let message = (SimpleBaselinePipeline_system_prompt,
                     SimpleBaselinePipeline_user_prompt data criteria_dict) in
      case invoke 0 message of
        None \<Rightarrow> Inl AttributeError
      | Some content \<Rightarrow>
          (let response_text = strip_code_fence content in
           case loads response_text of
             Some parsed \<Rightarrow> Inr parsed
           | None \<Rightarrow> Inr (PDict [])))"

text \<open>The loop \<open>for crit_name, details in score.items()\<close>: it runs over the keys of the
  decoded reply, not over the loaded criteria.\<close>

fun SimpleBaselinePipeline_loop ::
  "(string \<times> pyval) list \<Rightarrow> pyval list \<Rightarrow> py_error + pyval list" where
  "SimpleBaselinePipeline_loop [] scores = Inr scores"
| "SimpleBaselinePipeline_loop ((crit_name, details) # rest) scores =
     py_bind (py_get details ''reasoning'' (PStr '''')) (\<lambda>reasoning.
     py_bind (py_get details ''confidence'' (PInt 0)) (\<lambda>confidence_v.
     py_bind (py_int confidence_v) (\<lambda>confidence.
     py_bind (py_get details ''rating'' (PInt 0)) (\<lambda>rating_v.
     py_bind (py_int rating_v) (\<lambda>rating.
     SimpleBaselinePipeline_loop rest
       (scores @ [baseline_assessment crit_name
          (PDict [(''reasoning'', reasoning), (''confidence'', PInt confidence),
                  (''rating'', PInt rating)])]))))))"

definition SimpleBaselinePipeline_run ::
  "decoder \<Rightarrow> invoker \<Rightarrow> (string \<times> string) list \<Rightarrow> sample \<Rightarrow> py_error + pyval list" where
  "SimpleBaselinePipeline_run loads invoke criteria data =
     py_bind (SimpleBaselinePipeline_pipeline loads invoke data criteria) (\<lambda>score.
     py_bind (py_items score) (\<lambda>items.
     SimpleBaselinePipeline_loop items []))"

section \<open>The panel\<close>

text \<open>
  \<open>Panel.call_gpt\<close>, \<open>Panel.process\<close>, \<open>Panel.seek_brainstorming\<close> and the brainstorming
  branch of \<open>Panel.ask\<close> (\<open>panel.py\<close>), as the three-step pipeline uses them. An agent is
  its \<open>id\<close>, the only field that is read. Each function takes the number of invoker calls
  made so far and returns it updated.
\<close>

definition Panel_call_gpt ::
  "decoder \<Rightarrow> invoker \<Rightarrow> nat \<Rightarrow> fstring \<Rightarrow> fstring \<Rightarrow> bool \<Rightarrow> py_error + pyval \<times> nat" where
  "Panel_call_gpt loads invoke k system_prompt user_prompt interprete_literal =
     (case invoke k (system_prompt, user_prompt) of
        None \<Rightarrow> Inl AttributeError
      | Some content \<Rightarrow>
          (let raw_text = py_strip content in
           if interprete_literal then
             (let raw_text = py_strip (py_strip_chars ''```'' (py_strip_chars ''```json'' raw_text)) in
              case loads raw_text of
                None \<Rightarrow> Inr (PStr raw_text, Suc k)
              | Some return_json \<Rightarrow> Inr (return_json, Suc k))
           else Inr (PStr raw_text, Suc k)))"

definition Panel_process ::
  "decoder \<Rightarrow> invoker \<Rightarrow> nat \<Rightarrow> nat \<Rightarrow> fstring \<Rightarrow> fstring \<Rightarrow> bool \<Rightarrow> py_error + pyval \<times> nat" where
  "Panel_process loads invoke k agent system_prompt user_prompt interprete_literal =
     Panel_call_gpt loads invoke k system_prompt user_prompt interprete_literal"

definition protocol_entry :: "string \<Rightarrow> string \<Rightarrow> pyval \<Rightarrow> pyval" where
  "protocol_entry stage agent output =
     PDict [(''stage'', PStr stage), (''agent'', PStr agent), (''output'', output)]"

text \<open>The nested loop \<open>for round_num in range(rounds): for agent in self.agents\<close>, over
  the pairs (round, agent) in order; it extends the agents' feedback and the protocol
  log.\<close>

fun brainstorming_rounds ::
  "decoder \<Rightarrow> invoker \<Rightarrow> fstring \<Rightarrow> fstring \<Rightarrow> (nat \<times> nat) list \<Rightarrow> nat \<Rightarrow> pyval list
     \<Rightarrow> pyval list \<Rightarrow> py_error + (pyval list \<times> pyval list) \<times> nat" where
  "brainstorming_rounds loads invoke sys usr [] k agent_feedback protocol_log =
     Inr ((agent_feedback, protocol_log), k)"
| "brainstorming_rounds loads invoke sys usr ((round_num, agent) # rest) k agent_feedback
     protocol_log =
     py_bind (Panel_process loads invoke k agent sys usr False) (\<lambda>(agent_output, k').
     brainstorming_rounds loads invoke sys usr rest k'
       (agent_feedback @ [agent_output])
       (protocol_log @
          [protocol_entry
             (''Agent Round '' @ str_int (int round_num + 1) @ '', Agent '' @ str_int (int agent))
             (''Agent '' @ str_int (int agent)) agent_output]))"

definition Panel_seek_brainstorming ::
  "decoder \<Rightarrow> invoker \<Rightarrow> nat list \<Rightarrow> nat \<Rightarrow> fstring \<Rightarrow> fstring \<Rightarrow> nat
     \<Rightarrow> py_error + (pyval \<times> pyval) \<times> nat" where
  "Panel_seek_brainstorming loads invoke agents k system_prompt user_prompt rounds =
     py_bind (Panel_process loads invoke k 0 system_prompt user_prompt False)
       (\<lambda>(initial_draft, k1).
     let protocol_log = [protocol_entry ''Initial Draft'' ''Moderator'' initial_draft];
         agent_system_prompt =
           [Lit ''Following you will work on this task: *''] @ system_prompt @
           [Lit (''* You will be given an initial draft and you should challenge it ''
              @ ''and possibly improve it.'')];
         agent_user_prompt =
           [Lit ''This is your task: ***''] @ user_prompt @
           [Lit ''***. You are given a headstart: *'', interpolated initial_draft,
            Lit (''*. Consider it but generate your own improved version. ''
              @ ''Challenge the headstart draft if necessary. ''
              @ ''First write out what you think should be improved, then provide a new draft.'')]
     in
     py_bind (brainstorming_rounds loads invoke agent_system_prompt agent_user_prompt
                (concat (map (\<lambda>round_num. map (Pair round_num) agents) [0..<rounds]))
                k1 [] protocol_log)
       (\<lambda>((agent_feedback, protocol_log), k2).
     let finalize_system_prompt =
           [Lit ''Task: *''] @ system_prompt @
           [Lit (''*. Now consolidate the feedback from the other agents ''
              @ ''and produce a final draft.'')];
         finalize_user_prompt =
           [Lit ''This is your task: ***''] @ user_prompt @
           [Lit ''***. Consider the original draft *'', interpolated initial_draft,
            Lit ''* and the revisions: **'', Interp (PList agent_feedback),
            Lit ''**. Produce a final, consolidated version of the draft.'']
     in
     py_bind (Panel_process loads invoke k2 0 finalize_system_prompt finalize_user_prompt True)
       (\<lambda>(final_draft, k3).
     Inr ((final_draft,
           PList (protocol_log @
                  [protocol_entry ''Final Consolidation'' ''Moderator'' final_draft])),
          k3))))"

section \<open>The three-step pipeline\<close>

text \<open>
  \<open>EvalPipeline.task_execution\<close>, \<open>EvalPipeline.pipeline\<close> and \<open>EvalPipeline.run\<close>
  (\<open>eval_pipeline.py\<close>, lines 129 to 266). In single-model mode a reply that cannot be
  decoded is kept as raw text. In multi-agent mode a fresh panel of three agents (ids 0,
  1, 2) brainstorms for one round.
\<close>

definition EvalPipeline_task_execution ::
  "decoder \<Rightarrow> invoker \<Rightarrow> bool \<Rightarrow> nat \<Rightarrow> fstring \<Rightarrow> fstring
     \<Rightarrow> py_error + (pyval \<times> pyval) \<times> nat" where
  "EvalPipeline_task_execution loads invoke single_model k system_prompt user_prompt =
     (if single_model then
        (case invoke k (system_prompt, user_prompt) of
           None \<Rightarrow> Inl AttributeError
         | Some content \<Rightarrow>
             (let response_text = strip_code_fence content in
              case loads response_text of
                Some parsed \<Rightarrow> Inr ((parsed, parsed), Suc k)
              | None \<Rightarrow> Inr ((PStr response_text, PStr response_text), Suc k)))
      else Panel_seek_brainstorming loads invoke [0..<3] k system_prompt user_prompt 1)"

text \<open>Truthiness of a value, for \<open>if self.in_context_learning_samples.get(criteria)\<close>.\<close>

fun py_truthy :: "pyval \<Rightarrow> bool" where
  "py_truthy PNone = False"
| "py_truthy (PBool b) = b"
| "py_truthy (PInt i) = (i \<noteq> 0)"
| "py_truthy (PFloat r) = (r \<noteq> 0)"
| "py_truthy (PStr s) = (s \<noteq> [])"
| "py_truthy (PList xs) = (xs \<noteq> [])"
| "py_truthy (PDict kvs) = (kvs \<noteq> [])"

definition EvalPipeline_system_prompt :: fstring where
  "EvalPipeline_system_prompt =
     [Lit (''You are a Judge tasked to decide if a given summary has specific errors. ''
        @ ''You will follow a multi-step process to identify and score these errors.'')]"

definition criteria_line :: "string \<Rightarrow> string \<Rightarrow> fstring" where
  "criteria_line criteria definition_text =
     [Lit ''Criteria: *** '', Lit criteria, Lit '': '', Lit definition_text, Lit ('' ***'' @ nl)]"

definition user_prompt_step_1 :: "sample \<Rightarrow> string \<Rightarrow> string \<Rightarrow> fstring" where
  "user_prompt_step_1 data criteria definition_text =
     [Lit (''Step 1: Collect potential error instances.'' @ nl)]
     @ criteria_line criteria definition_text @
     [Lit ''Summary: ** '', Lit (summary data), Lit ('' **'' @ nl),
      Lit ''Transcript: ** '', Lit (transcript data), Lit ('' **'' @ nl),
      Lit (''List instances where this error *could* occur. Provide short reasoning ''
        @ ''and a certainty score (0-100). Return strictly valid JSON with the format:'' @ nl),
      Lit (''[{'' @ dq @ ''instance'' @ dq @ '': '' @ dq @ ''<text>'' @ dq @ '', ''
        @ dq @ ''reasoning'' @ dq @ '': '' @ dq @ ''<reason>'' @ dq @ '', ''
        @ dq @ ''certainty'' @ dq @ '': '' @ dq @ ''<0-100>'' @ dq @ ''}, ...]'')]"

definition user_prompt_step_2 :: "string \<Rightarrow> string \<Rightarrow> pyval \<Rightarrow> fstring" where
  "user_prompt_step_2 criteria definition_text list_of_instances =
     [Lit (''Step 2: Filter actual errors.'' @ nl)]
     @ criteria_line criteria definition_text @
     [Lit ''Potential instances: '', interpolated list_of_instances, Lit nl,
      Lit (''Decide if each instance is actually an error or not. ''
        @ ''Return strictly valid JSON with the format:'' @ nl),
      Lit (''[{'' @ dq @ ''instance'' @ dq @ '': '' @ dq @ ''<text>'' @ dq @ '', ''
        @ dq @ ''reasoning'' @ dq @ '': '' @ dq @ ''<reason>'' @ dq @ '', ''
        @ dq @ ''certainty'' @ dq @ '': '' @ dq @ ''<0-100>'' @ dq @ '', ''
        @ dq @ ''error_exists'' @ dq @ '': true}, ...]'')]"

definition user_prompt_step_3 :: "sample \<Rightarrow> string \<Rightarrow> string \<Rightarrow> pyval \<Rightarrow> fstring" where
  "user_prompt_step_3 data criteria definition_text list_of_instances_filtered =
     [Lit (''Step 3: Rate the summary considering the filtered error instances.'' @ nl)]
     @ criteria_line criteria definition_text @
     [Lit ''Summary: ** '', Lit (summary data), Lit ('' **'' @ nl),
      Lit ''Transcript: ** '', Lit (transcript data), Lit ('' **'' @ nl),
      Lit ''Error instances: '', interpolated list_of_instances_filtered, Lit nl,
      Lit (''Rate how badly these errors affect the summary on a scale 0-5 ''
        @ ''(0 = no impact, 5 = severe). ''
        @ ''Also provide a short reasoning and a confidence score (0-10). ''
        @ ''Return strictly valid JSON in this format:'' @ nl),
      Lit rating_format]"

definition EvalPipeline_pipeline ::
  "decoder \<Rightarrow> invoker \<Rightarrow> bool \<Rightarrow> (string \<times> string) list \<Rightarrow> (string \<times> pyval) list
     \<Rightarrow> nat \<Rightarrow> sample \<Rightarrow> string
     \<Rightarrow> py_error + (pyval \<times> pyval \<times> pyval \<times> pyval) \<times> nat" where
  "EvalPipeline_pipeline loads invoke single_model self_criteria in_context_learning_samples
     k data criteria =
     py_bind (case map_of self_criteria criteria of
                None \<Rightarrow> Inl (KeyError criteria)
              | Some definition_text \<Rightarrow> Inr definition_text) (\<lambda>definition_text.
     (let system_prompt = EvalPipeline_system_prompt in
      py_bind (EvalPipeline_task_execution loads invoke single_model k system_prompt
                 (user_prompt_step_1 data criteria definition_text))
        (\<lambda>((list_of_instances, log_instances), k1).
      py_bind (EvalPipeline_task_execution loads invoke single_model k1 system_prompt
                 (user_prompt_step_2 criteria definition_text list_of_instances))
        (\<lambda>((list_of_instances_filtered, log_filtered), k2).
      let system_prompt =
            (if py_truthy (py_dict_get in_context_learning_samples criteria PNone)
             then system_prompt @
                  [Lit (nl @ ''In-context examples:'' @ nl),
                   interpolated (py_dict_get in_context_learning_samples criteria PNone)]
             else system_prompt)
      in
      py_bind (EvalPipeline_task_execution loads invoke single_model k2 system_prompt
                 (user_prompt_step_3 data criteria definition_text list_of_instances_filtered))
        (\<lambda>((final_score, log_final), k3).
      py_bind (py_get final_score ''rating'' PNone) (\<lambda>logged_rating.
      py_bind (py_get final_score ''confidence'' PNone) (\<lambda>logged_confidence.
      let protocol = PDict [(''instances'', log_instances), (''filter'', log_filtered),
                            (''final'', log_final)]
      in Inr ((final_score, list_of_instances, list_of_instances_filtered, protocol), k3))))))))"

definition eval_assessment :: "string \<Rightarrow> pyval \<Rightarrow> pyval \<Rightarrow> pyval \<Rightarrow> pyval \<Rightarrow> pyval" where
  "eval_assessment criteria selection filter_output score protocol =
     PDict [(''criteria'', PStr criteria), (''selection'', selection),
            (''filter'', filter_output), (''score'', score), (''protocol'', protocol)]"

text \<open>The loop \<open>for criteria in self.criteria\<close> of \<open>run\<close>, over the keys of the loaded
  criteria.\<close>

fun EvalPipeline_loop ::
  "decoder \<Rightarrow> invoker \<Rightarrow> bool \<Rightarrow> (string \<times> string) list \<Rightarrow> (string \<times> pyval) list
     \<Rightarrow> sample \<Rightarrow> nat \<Rightarrow> string list \<Rightarrow> pyval list \<Rightarrow> py_error + pyval list" where
  "EvalPipeline_loop loads invoke single_model self_criteria samples data k [] scores =
     Inr scores"
| "EvalPipeline_loop loads invoke single_model self_criteria samples data k (criteria # rest)
     scores =
     py_bind (EvalPipeline_pipeline loads invoke single_model self_criteria samples k data
                criteria)
       (\<lambda>((score, selection, filter_output, protocol), k').
     EvalPipeline_loop loads invoke single_model self_criteria samples data k' rest
       (scores @ [eval_assessment criteria selection filter_output score protocol]))"

definition EvalPipeline_run ::
  "decoder \<Rightarrow> invoker \<Rightarrow> bool \<Rightarrow> (string \<times> string) list \<Rightarrow> (string \<times> pyval) list
     \<Rightarrow> sample \<Rightarrow> py_error + pyval list \<times> real" where
  "EvalPipeline_run loads invoke single_model self_criteria in_context_learning_samples data =
     py_bind (EvalPipeline_loop loads invoke single_model self_criteria
                in_context_learning_samples data 0 (map fst self_criteria) [])
       (\<lambda>scores.
     py_bind (compute_quality_score scores None) (\<lambda>quality_score.
     Inr (scores, quality_score)))"



section \<open>Fitting: the comparison run\<close>

text \<open>
  \<open>Fitting.reasoning_feedback\<close>, \<open>Fitting.quality_report\<close>,
  \<open>Fitting.group_feedback_by_error_type\<close> and \<open>Fitting.run\<close> (\<open>fitting.py\<close>, lines 97 to
  298). The entries that \<open>run\<close> reads are typed: of an assessment its criterion name, its
  integer rating and its reasoning; of a human judgment its impact and its reasoning. The
  model scores are the items of a dict from the sample index to the list of assessments;
  the human scores are None or a list of rows, each row a dict from the criterion name to
  the human judgment.

  The effects of a run are recorded as events, in order: every message sent to the model
  invoker, and every line "Distance for ...: ..." that \<open>run\<close> logs. A function with
  effects maps the events so far to its outcome and the events afterwards.
\<close>

datatype assessment = Assessment (a_criteria: string) (a_rating: int) (a_reasoning: string)

datatype human_judgment = Human (h_impact: int) (h_reasoning: string)

datatype feedback =
  Feedback (fb_criteria: string) (fb_distance: "string \<times> string") (fb_quality: string)

datatype fit_event = ModelCall message | LogDistance string "string \<times> string"

type_synonym 'a fit = "fit_event list \<Rightarrow> (py_error + 'a) \<times> fit_event list"

definition fit_return :: "'a \<Rightarrow> 'a fit" where
  "fit_return v events = (Inr v, events)"

definition fit_bind :: "'a fit \<Rightarrow> ('a \<Rightarrow> 'b fit) \<Rightarrow> 'b fit" where
  "fit_bind m f events =
     (case m events of (Inl e, events') \<Rightarrow> (Inl e, events') | (Inr v, events') \<Rightarrow> f v events')"

definition fit_log :: "fit_event \<Rightarrow> unit fit" where
  "fit_log ev events = (Inr (), events @ [ev])"

fun is_call :: "fit_event \<Rightarrow> bool" where
  "is_call (ModelCall m) = True"
| "is_call (LogDistance n d) = False"

text \<open>A call of \<open>ModelHandler.call_model_with_retry\<close> followed by the read of
  \<open>choices[0].message.content\<close>, which raises AttributeError on the sentinel None. The
  number of the call is the number of messages sent before it.\<close>

definition fit_invoke :: "invoker \<Rightarrow> message \<Rightarrow> string fit" where
  "fit_invoke invoke msg events =
     (case invoke (length (filter is_call events)) msg of
        None \<Rightarrow> (Inl AttributeError, events @ [ModelCall msg])
      | Some content \<Rightarrow> (Inr content, events @ [ModelCall msg]))"

definition reasoning_message :: "string \<Rightarrow> string \<Rightarrow> message" where
  "reasoning_message model_reasoning human_reasoning =
     ([Lit (''You are a judge tasked with comparing a candidate reasoning to a human reasoning. ''
         @ ''You may find differences acceptable unless they are major or inaccurate. ''
         @ ''Return a chain-of-thought and a single-value quality score (0 to 100).'')],
      [Lit (''Candidate reasoning:'' @ nl), Lit model_reasoning, Lit (nl @ nl),
       Lit (''Human reasoning:'' @ nl), Lit human_reasoning, Lit (nl @ nl),
       Lit ''Please provide your chain-of-thought and a single integer rating from 0 to 100.''])"

definition reasoning_feedback :: "invoker \<Rightarrow> string \<Rightarrow> string \<Rightarrow> string fit" where
  "reasoning_feedback invoke model_reasoning human_reasoning =
     fit_bind (fit_invoke invoke (reasoning_message model_reasoning human_reasoning))
       (\<lambda>content. fit_return (py_strip content))"

definition quality_message :: "pyval \<Rightarrow> message" where
  "quality_message list_of_comparisons =
     ([Lit (''You are a supervisor providing feedback to a junior evaluator on how to improve. ''
         @ ''You will be given comparisons of metric vs. human evaluations.'')],
      [Lit (''All comparisons:'' @ nl), interpolated list_of_comparisons, Lit (nl @ nl),
       Lit ''Now provide meta-level feedback on how to improve scoring and reasoning. '',
       Lit (''Return valid JSON in the format:'' @ nl),
       Lit (''{'' @ nl
         @ ''  '' @ dq @ ''score_similarity'' @ dq @ '': '' @ dq @ ''<feedback>'' @ dq @ '','' @ nl
         @ ''  '' @ dq @ ''reasoning_quality'' @ dq @ '': '' @ dq @ ''<feedback>'' @ dq @ nl
         @ ''}'' @ nl)])"

definition quality_report :: "decoder \<Rightarrow> invoker \<Rightarrow> pyval \<Rightarrow> pyval fit" where
  "quality_report loads invoke list_of_comparisons =
     fit_bind (fit_invoke invoke (quality_message list_of_comparisons))
       (\<lambda>content.
          let text = py_strip content in
          fit_return (case loads text of None \<Rightarrow> PStr text | Some literal \<Rightarrow> literal))"

text \<open>\<open>grouped[error_type].append(feedback)\<close> on a \<open>defaultdict(list)\<close>: a new key goes to
  the end of the dict.\<close>

definition grouped_append ::
  "(string \<times> feedback list) list \<Rightarrow> feedback \<Rightarrow> (string \<times> feedback list) list" where
  "grouped_append grouped fb =
     (if fb_criteria fb \<in> set (map fst grouped)
      then map (\<lambda>(k, v). if k = fb_criteria fb then (k, v @ [fb]) else (k, v)) grouped
      else grouped @ [(fb_criteria fb, [fb])])"

definition group_feedback_by_error_type ::
  "feedback list \<Rightarrow> (string \<times> feedback list) list" where
  "group_feedback_by_error_type feedback_list = foldl grouped_append [] feedback_list"

text \<open>The human rating and reasoning for one criterion (lines 224 to 229): taken from a
  row that is not empty, and 0 and the empty string otherwise.\<close>

definition human_for ::
  "(string \<times> human_judgment) list option \<Rightarrow> string \<Rightarrow> py_error + int \<times> string" where
  "human_for working_human_scores error_type =
     (case working_human_scores of
        None \<Rightarrow> Inr (0, '''')
      | Some row \<Rightarrow>
          if row = [] then Inr (0, '''')
          else (case map_of row error_type of
                  None \<Rightarrow> Inl (KeyError error_type)
                | Some h \<Rightarrow> Inr (h_impact h, h_reasoning h)))"

text \<open>The loop \<open>for criteria in working_sample["scores"]\<close>.\<close>

fun criteria_loop ::
  "invoker \<Rightarrow> (string \<times> human_judgment) list option \<Rightarrow> assessment list \<Rightarrow> feedback list
     \<Rightarrow> feedback list fit" where
  "criteria_loop invoke working_human_scores [] feedback_per_criteria =
     fit_return feedback_per_criteria"
| "criteria_loop invoke working_human_scores (criteria # rest) feedback_per_criteria =
     (let error_type = a_criteria criteria;
          metric_rating = a_rating criteria;
          metric_reasoning = a_reasoning criteria in
      case human_for working_human_scores error_type of
        Inl e \<Rightarrow> (\<lambda>events. (Inl e, events))
      | Inr (human_rating, human_reasoning) \<Rightarrow>
          (let distance = likert_score_feedback metric_rating human_rating in
           fit_bind (reasoning_feedback invoke metric_reasoning human_reasoning) (\<lambda>quality.
           fit_bind (fit_log (LogDistance error_type distance)) (\<lambda>_.
           criteria_loop invoke working_human_scores rest
             (feedback_per_criteria @ [Feedback error_type distance quality])))))"

text \<open>The loop \<open>for group in grouped_feedback_by_error_type\<close>: iterating a dict yields
  its keys, so \<open>group\<close> (here \<open>group_key\<close>) is a criterion name.\<close>

fun reports_loop :: "decoder \<Rightarrow> invoker \<Rightarrow> string list \<Rightarrow> pyval list \<Rightarrow> pyval list fit" where
  "reports_loop loads invoke [] overall_quality = fit_return overall_quality"
| "reports_loop loads invoke (group_key # rest) overall_quality =
     fit_bind (quality_report loads invoke (PStr group_key)) (\<lambda>quality_per_error_type.
     reports_loop loads invoke rest (overall_quality @ [quality_per_error_type]))"

text \<open>\<open>human_scores[index] if human_scores else None\<close>.\<close>

definition working_human ::
  "(string \<times> human_judgment) list list option \<Rightarrow> nat
     \<Rightarrow> py_error + (string \<times> human_judgment) list option" where
  "working_human human_scores index =
     (case human_scores of
        None \<Rightarrow> Inr None
      | Some rows \<Rightarrow>
          if rows = [] then Inr None
          else if index < length rows then Inr (Some (rows ! index))
          else Inl IndexError)"

text \<open>The loop \<open>for index, model_score_dict in scores.items()\<close>. The list
  \<open>overall_quality\<close> is set anew for every sample and is not part of what \<open>run\<close> returns.\<close>

fun samples_loop ::
  "decoder \<Rightarrow> invoker \<Rightarrow> (string \<times> human_judgment) list list option
     \<Rightarrow> (nat \<times> assessment list) list \<Rightarrow> pyval list \<Rightarrow> pyval list fit" where
  "samples_loop loads invoke human_scores [] overall_quality = fit_return overall_quality"
| "samples_loop loads invoke human_scores ((index, model_score_dict) # rest) overall_quality =
     (case working_human human_scores index of
        Inl e \<Rightarrow> (\<lambda>events. (Inl e, events))
      | Inr working_human_scores \<Rightarrow>
          fit_bind (criteria_loop invoke working_human_scores model_score_dict [])
            (\<lambda>feedback_per_criteria.
          let grouped_feedback_by_error_type =
                group_feedback_by_error_type feedback_per_criteria in
          fit_bind (reports_loop loads invoke (map fst grouped_feedback_by_error_type) [])
            (\<lambda>overall_quality.
          samples_loop loads invoke human_scores rest overall_quality)))"

definition Fitting_run ::
  "decoder \<Rightarrow> invoker \<Rightarrow> (nat \<times> assessment list) list
     \<Rightarrow> (string \<times> human_judgment) list list option
     \<Rightarrow> (py_error + pyval list \<times> pyval list) \<times> fit_event list" where
  "Fitting_run loads invoke scores human_scores =
     (let overall_quality = []; overall_reports = [] in
      fit_bind (samples_loop loads invoke human_scores scores overall_quality)
        (\<lambda>overall_quality. fit_return (overall_reports, overall_reports)) [])"

text \<open>
  The events of a run in which every call of the invoker returns a response and no human
  scores are given. For one assessment: the reasoning comparison against the empty human
  reasoning, and the logged distance to the human rating 0. For one sample: the events of
  its assessments, then one quality report request per distinct criterion name, in the
  order of first occurrence, carrying that name.
\<close>

definition assessment_events :: "assessment \<Rightarrow> fit_event list" where
  "assessment_events a =
     [ModelCall (reasoning_message (a_reasoning a) ''''),
      LogDistance (a_criteria a) (likert_score_feedback (a_rating a) 0)]"

definition add_key :: "string list \<Rightarrow> string \<Rightarrow> string list" where
  "add_key keys k = (if k \<in> set keys then keys else keys @ [k])"

definition first_occurrences :: "string list \<Rightarrow> string list" where
  "first_occurrences names = foldl add_key [] names"

definition sample_events :: "assessment list \<Rightarrow> fit_event list" where
  "sample_events assessments =
     concat (map assessment_events assessments)
     @ map (\<lambda>name. ModelCall (quality_message (PStr name)))
         (first_occurrences (map a_criteria assessments))"

definition expected_events :: "(nat \<times> assessment list) list \<Rightarrow> fit_event list" where
  "expected_events scores = concat (map (\<lambda>(index, assessments). sample_events assessments) scores)"

text \<open>Human scores of a human who found no errors: for every sample a row that gives
  every criterion of the sample the impact 0 and an empty reasoning.\<close>

definition found_no_errors ::
  "(string \<times> human_judgment) list list \<Rightarrow> (nat \<times> assessment list) list \<Rightarrow> bool" where
  "found_no_errors rows scores =
     list_all (\<lambda>(index, assessments).
        index < length rows \<and> rows ! index \<noteq> [] \<and>
        list_all (\<lambda>a. map_of (rows ! index) (a_criteria a) = Some (Human 0 [])) assessments)
      scores"

section \<open>Properties of the categorical distance\<close>

lemma likert_category:
  "fst (likert_score_feedback m h) =
     (if m = 0 \<and> 1 \<le> h then ''Error Detection Discrepancy''
      else if 1 \<le> m \<and> h = 0 then ''Error Detection Discrepancy''
      else if \<bar>m - h\<bar> = 0 then ''No Difference''
      else if \<bar>m - h\<bar> = 1 then ''Minor Difference''
      else if \<bar>m - h\<bar> = 2 then ''Moderate Difference''
      else ''Major Difference'')"
  by (simp add: likert_score_feedback_def Let_def)

text \<open>
  Claim C8, as stated, lists the pair (model 1, human 4) under "Moderate Difference".
  The two ratings differ by 3, and the function answers "Major Difference".
\<close>

theorem likert_one_four_counterexample:
  "fst (likert_score_feedback 1 4) \<noteq> ''Moderate Difference''"
  by (simp add: likert_category)

text \<open>
  Claim C8, amended. For all integer ratings the category follows the six rules in
  order: a metric rating of 0 against a human rating of at least 1, or a metric rating of
  at least 1 against a human rating of 0, is an "Error Detection Discrepancy"; when
  neither holds, an absolute difference of 0, 1, 2 or at least 3 gives "No Difference",
  "Minor Difference", "Moderate Difference" or "Major Difference". The concrete cases
  follow: (0, 3) and (2, 0) are detection discrepancies, (3, 3) is no difference, (2, 3)
  is minor, (0, 5) is a detection discrepancy and not a major difference, and (1, 4),
  whose difference is 3, is a major difference.
\<close>

theorem likert_score_feedback_rules:
  "(m = 0 \<and> 1 \<le> h \<longrightarrow> fst (likert_score_feedback m h) = ''Error Detection Discrepancy'')
   \<and> (1 \<le> m \<and> h = 0 \<longrightarrow> fst (likert_score_feedback m h) = ''Error Detection Discrepancy'')
   \<and> (\<not> (m = 0 \<and> 1 \<le> h) \<and> \<not> (1 \<le> m \<and> h = 0) \<longrightarrow>
        (\<bar>m - h\<bar> = 0 \<longrightarrow> fst (likert_score_feedback m h) = ''No Difference'')
      \<and> (\<bar>m - h\<bar> = 1 \<longrightarrow> fst (likert_score_feedback m h) = ''Minor Difference'')
      \<and> (\<bar>m - h\<bar> = 2 \<longrightarrow> fst (likert_score_feedback m h) = ''Moderate Difference'')
      \<and> (3 \<le> \<bar>m - h\<bar> \<longrightarrow> fst (likert_score_feedback m h) = ''Major Difference''))
   \<and> fst (likert_score_feedback 0 3) = ''Error Detection Discrepancy''
   \<and> fst (likert_score_feedback 2 0) = ''Error Detection Discrepancy''
   \<and> fst (likert_score_feedback 3 3) = ''No Difference''
   \<and> fst (likert_score_feedback 2 3) = ''Minor Difference''
   \<and> fst (likert_score_feedback 1 4) = ''Major Difference''
   \<and> fst (likert_score_feedback 0 5) = ''Error Detection Discrepancy''"
  by (simp add: likert_category)

theorem likert_score_feedback_rules_witness:
  "fst (likert_score_feedback 0 2) = ''Error Detection Discrepancy''
   \<and> fst (likert_score_feedback 4 0) = ''Error Detection Discrepancy''
   \<and> fst (likert_score_feedback 5 5) = ''No Difference''
   \<and> fst (likert_score_feedback 4 5) = ''Minor Difference''
   \<and> fst (likert_score_feedback 5 3) = ''Moderate Difference''
   \<and> fst (likert_score_feedback 1 5) = ''Major Difference''"
  using likert_score_feedback_rules [of 0 2] likert_score_feedback_rules [of 4 0]
    likert_score_feedback_rules [of 5 5] likert_score_feedback_rules [of 4 5]
    likert_score_feedback_rules [of 5 3] likert_score_feedback_rules [of 1 5]
  by simp


section \<open>Properties of the quality aggregation\<close>

lemma py_upper_char_not_lower:
  "\<not> (97 \<le> (of_char (py_upper_char c) :: nat) \<and> (of_char (py_upper_char c) :: nat) \<le> 122)"
proof (cases "97 \<le> (of_char c :: nat) \<and> (of_char c :: nat) \<le> 122")
  case True
  then have "py_upper_char c = char_of ((of_char c :: nat) - 32)"
    by (simp add: py_upper_char_def Let_def)
  moreover have "((of_char c :: nat) - 32) mod 256 = (of_char c :: nat) - 32"
    using True by (intro mod_less) linarith
  ultimately have "(of_char (py_upper_char c) :: nat) = (of_char c :: nat) - 32"
    by simp
  with True show ?thesis by linarith
next
  case False
  then have "py_upper_char c = c" unfolding py_upper_char_def Let_def by (simp only: if_False)
  with False show ?thesis by simp
qed

lemma py_upper_neq_lower_initial:
  assumes "97 \<le> (of_char k :: nat)" and "(of_char k :: nat) \<le> 122"
  shows "py_upper s \<noteq> k # ks"
proof
  assume "py_upper s = k # ks"
  then obtain c where "k = py_upper_char c"
    by (cases s) (auto simp: py_upper_def)
  with assms py_upper_char_not_lower [of c] show False by simp
qed

lemma default_weights_never_found:
  "map_of default_importance_weights (py_upper s) = None"
proof -
  have "py_upper s \<noteq> ''omission''" by (rule py_upper_neq_lower_initial) simp_all
  moreover have "py_upper s \<noteq> ''hallucination''" by (rule py_upper_neq_lower_initial) simp_all
  moreover have "py_upper s \<noteq> ''irrelevance''" by (rule py_upper_neq_lower_initial) simp_all
  moreover have "py_upper s \<noteq> ''repetition''" by (rule py_upper_neq_lower_initial) simp_all
  moreover have "py_upper s \<noteq> ''incoherence''" by (rule py_upper_neq_lower_initial) simp_all
  moreover have "py_upper s \<noteq> ''language''" by (rule py_upper_neq_lower_initial) simp_all
  ultimately show ?thesis
    unfolding default_importance_weights_def by simp
qed

lemma default_importance_is_one:
  "py_dict_get default_importance_weights (py_upper s) 1 = 1"
  by (simp add: py_dict_get_def default_weights_never_found)








text \<open>
  Claim C7 says that the six named criteria weigh 1.1 or 0.9, whatever the letter case of
  the name. The lookup key is the upper-cased name and the keys of the default table are
  lower-case, so no name is ever found: every entry weighs 1.0. With an "omission" entry
  rated 4 and a "coreference" entry rated 2, both of certainty 1, the impact is the plain
  average 3 and the quality 23/5, where weights of 1.1 and 1.0 would give 158/35.
\<close>

theorem default_weights_never_applied:
  "(\<forall>name. py_dict_get default_importance_weights (py_upper name) 1 = 1)
   \<and> compute_quality_score
       [PDict [(''criteria'', PStr ''omission''), (''certainty'', PInt 1), (''rating'', PInt 4)],
        PDict [(''criteria'', PStr ''coreference''), (''certainty'', PInt 1), (''rating'', PInt 2)]]
       None = Inr (23 / 5)
   \<and> 1 + ((5 - (4 * (11 / 10) + 2 * 1) / (11 / 10 + 1)) / 5) * 9 = (158 / 35 :: real)"
proof -
  have "compute_quality_score
       [PDict [(''criteria'', PStr ''omission''), (''certainty'', PInt 1), (''rating'', PInt 4)],
        PDict [(''criteria'', PStr ''coreference''), (''certainty'', PInt 1), (''rating'', PInt 2)]]
       None = Inr (23 / 5)"
    by code_simp
  then show ?thesis by (simp add: default_importance_is_one)
qed

section \<open>Properties of the model invoker\<close>

lemma attempt_body_eq:
  assumes "0 \<le> base_delay"
  shows "attempt_body client rng base_delay a tr =
    ((case client a of Returns r \<Rightarrow> Return (Some r)
      | Raises msg \<Rightarrow> if py_in ''429'' msg then Continue else Break),
     tr @ attempt_events client rng base_delay a)"
proof -
  have "0 \<le> 2 ^ (a + 1) + real (randint_0_1000 rng a) / 1000"
    by (intro add_nonneg_nonneg) simp_all
  then have "\<not> (2 ^ (a + 1) + real (randint_0_1000 rng a) / 1000 < 0)"
    by linarith
  then show ?thesis using assms
    by (simp add: attempt_body_def finally_sleep_def time_sleep_def attempt_events_def
        is_rate_limited_def backoff_def Let_def split: outcome.splits)
qed

lemma retry_loop_eq:
  assumes "0 \<le> base_delay"
  shows "retry_loop client rng base_delay as tr =
    (Inr (final_result client as),
     tr @ concat (map (attempt_events client rng base_delay)
            (take (attempts_made (is_rate_limited client) as) as)))"
proof (induction as arbitrary: tr)
  case Nil
  show ?case by (simp add: final_result_def)
next
  case (Cons a rest)
  show ?case
  proof (cases "client a")
    case (Returns r)
    then show ?thesis
      by (simp add: attempt_body_eq [OF assms] final_result_def is_rate_limited_def)
  next
    case (Raises msg)
    show ?thesis
    proof (cases "py_in ''429'' msg")
      case True
      with Raises have rl: "is_rate_limited client a" by (simp add: is_rate_limited_def)
      from Raises True rl show ?thesis
        by (simp add: attempt_body_eq [OF assms] Cons.IH final_result_def)
    next
      case False
      with Raises have rl: "\<not> is_rate_limited client a" by (simp add: is_rate_limited_def)
      from Raises False rl show ?thesis
        by (simp add: attempt_body_eq [OF assms] final_result_def)
    qed
  qed
qed

lemma attempts_made_le: "attempts_made limited as \<le> length as"
  by (induction as) auto

lemma attempts_made_retry:
  "Suc i < attempts_made limited as \<Longrightarrow> limited (as ! i)"
proof (induction as arbitrary: i)
  case Nil
  then show ?case by simp
next
  case (Cons a rest)
  then show ?case by (cases i) (auto split: if_splits)
qed

lemma attempts_made_all:
  "list_all limited as \<Longrightarrow> attempts_made limited as = length as"
  by (induction as) auto

lemma final_result_all:
  "list_all (is_rate_limited client) as \<Longrightarrow> final_result client as = None"
  by (induction as) (auto simp: final_result_def)

lemma backoff_bounds: "2 ^ (k + 1) \<le> backoff rng k \<and> backoff rng k \<le> 2 ^ (k + 1) + 1"
proof -
  have "randint_0_1000 rng k \<le> 1000" by (simp add: randint_0_1000_def)
  then have "real (randint_0_1000 rng k) / 1000 \<le> 1" by simp
  then show ?thesis by (simp add: backoff_def)
qed


lemma final_result_at:
  "i < attempts_made (is_rate_limited client) as \<Longrightarrow> \<not> is_rate_limited client (as ! i) \<Longrightarrow>
   final_result client as = (case client (as ! i) of Returns r \<Rightarrow> Some r | Raises _ \<Rightarrow> None)"
proof (induction as arbitrary: i)
  case Nil
  then show ?case by simp
next
  case (Cons a rest)
  show ?case
  proof (cases "is_rate_limited client a")
    case True
    with Cons.prems obtain j where j: "i = Suc j" by (cases i) auto
    with Cons.prems True have "j < attempts_made (is_rate_limited client) rest"
      and "\<not> is_rate_limited client (rest ! j)" by auto
    from Cons.IH [OF this] True j show ?thesis by (simp add: final_result_def)
  next
    case False
    with Cons.prems have "i = 0" by simp
    with False show ?thesis by (simp add: final_result_def)
  qed
qed

text \<open>
  Claim C4. For a \<open>base_delay\<close> that is not negative, \<open>call_model_with_retry\<close> raises
  nothing and returns the final result: the response of the first attempt that is not
  rate-limited if it returned, and None if it raised or if all \<open>max_attempts\<close> attempts
  were rate-limited. Its trace is the events of the attempts made, in order: each attempt
  is one call followed, when the error message contains "429", by a sleep of
  \<open>2 ^ (attempt + 1)\<close> seconds plus a jitter between 0 and 1, and in every case by a
  sleep of \<open>base_delay\<close>. At most \<open>max_attempts\<close> attempts are made; an attempt is
  followed by another one only if it was rate-limited; an attempt that is not
  rate-limited is the last one.
\<close>

theorem call_model_with_retry_policy:
  assumes "0 \<le> base_delay"
  shows "(let m = nat max_attempts;
              n = attempts_made (is_rate_limited client) [0..<m];
              run = call_model_with_retry client rng max_attempts base_delay
          in fst run = Inr (final_result client [0..<m])
           \<and> snd run = concat (map (attempt_events client rng base_delay) [0..<n])
           \<and> n \<le> m
           \<and> (\<forall>k. Suc k < n \<longrightarrow> is_rate_limited client k)
           \<and> (\<forall>k. k < n \<and> \<not> is_rate_limited client k \<longrightarrow>
                 n = Suc k
               \<and> fst run = Inr (case client k of Returns r \<Rightarrow> Some r | Raises _ \<Rightarrow> None))
           \<and> (\<forall>k. 2 ^ (k + 1) \<le> backoff rng k \<and> backoff rng k \<le> 2 ^ (k + 1) + 1)
           \<and> ((\<forall>k<m. is_rate_limited client k) \<longrightarrow> n = m \<and> fst run = Inr None))"
proof -
  define m where "m = nat max_attempts"
  define n where "n = attempts_made (is_rate_limited client) [0..<m]"
  have nm: "n \<le> m" unfolding n_def using attempts_made_le [of _ "[0..<m]"] by simp
  have run: "call_model_with_retry client rng max_attempts base_delay =
      (Inr (final_result client [0..<m]),
       concat (map (attempt_events client rng base_delay) [0..<n]))"
    unfolding call_model_with_retry_def retry_loop_eq [OF assms] m_def [symmetric]
      n_def [symmetric] using nm by (simp add: take_upt)
  have retry: "is_rate_limited client k" if "Suc k < n" for k
  proof -
    from that nm have "k < m" by simp
    with attempts_made_retry [of k "is_rate_limited client" "[0..<m]"] that
    show ?thesis by (simp add: n_def)
  qed
  have stop: "n = Suc k \<and> final_result client [0..<m] =
        (case client k of Returns r \<Rightarrow> Some r | Raises _ \<Rightarrow> None)"
    if "k < n" and "\<not> is_rate_limited client k" for k
  proof -
    from that(1) nm have km: "k < m" by simp
    have "\<not> Suc k < n" using retry [of k] that(2) by blast
    with that(1) have "n = Suc k" by simp
    moreover from final_result_at [of k client "[0..<m]"] that km
    have "final_result client [0..<m] =
        (case client k of Returns r \<Rightarrow> Some r | Raises _ \<Rightarrow> None)"
      by (simp add: n_def)
    ultimately show ?thesis by simp
  qed
  have exhausted: "n = m \<and> final_result client [0..<m] = None"
    if "\<forall>k<m. is_rate_limited client k"
  proof -
    from that have "list_all (is_rate_limited client) [0..<m]" by (simp add: list_all_iff)
    then show ?thesis
      using attempts_made_all [of "is_rate_limited client" "[0..<m]"]
        final_result_all [of client "[0..<m]"] by (simp add: n_def)
  qed
  show ?thesis
    unfolding Let_def m_def [symmetric] n_def [symmetric] run fst_conv snd_conv
  proof (intro conjI allI impI, goal_cases)
    case 1
    show ?case by (rule refl)
  next
    case 2
    show ?case by (rule refl)
  next
    case 3
    show ?case by (rule nm)
  next
    case (4 k)
    then show ?case by (rule retry)
  next
    case (5 k)
    then show ?case using stop [of k] by blast
  next
    case (6 k)
    then show ?case using stop [of k] by simp
  next
    case (7 k)
    show ?case using backoff_bounds [of k rng] by blast
  next
    case (8 k)
    show ?case using backoff_bounds [of k rng] by blast
  next
    case 9
    then show ?case using exhausted by blast
  next
    case 10
    then show ?case using exhausted by simp
  qed
qed

theorem call_model_with_retry_policy_witness:
  "call_model_with_retry
     (\<lambda>k. if k < 2 then Raises ''Error code: 429 - rate limit'' else Returns ''ok'')
     (\<lambda>k. 1500 + k) 6 3
   = (Inr (Some ''ok''),
      [Call 0, Sleep (2499 / 1000), Sleep 3, Call 1, Sleep (9 / 2), Sleep 3, Call 2, Sleep 3])"
proof -
  let ?c = "\<lambda>k::nat. if k < 2 then Raises ''Error code: 429 - rate limit'' else Returns ''ok''"
  let ?g = "\<lambda>k::nat. 1500 + k"
  have n: "attempts_made (is_rate_limited ?c) [0..<nat 6] = 3"
    by code_simp
  have f: "final_result ?c [0..<nat 6] = Some ''ok''"
    by code_simp
  have e: "concat (map (attempt_events ?c ?g 3) [0..<3]) =
      [Call 0, Sleep (2499 / 1000), Sleep 3, Call 1, Sleep (9 / 2), Sleep 3, Call 2, Sleep 3]"
    by code_simp
  have "(0::real) \<le> 3" by simp
  note policy = call_model_with_retry_policy [OF this, of 6 ?c ?g, unfolded Let_def]
  have a: "fst (call_model_with_retry ?c ?g 6 3) = Inr (final_result ?c [0..<nat 6])"
    using policy by (rule conjunct1)
  have b: "snd (call_model_with_retry ?c ?g 6 3) =
      concat (map (attempt_events ?c ?g 3) [0..<attempts_made (is_rate_limited ?c) [0..<nat 6]])"
    using policy by (rule conjunct1 [OF conjunct2])
  show ?thesis
    using a b unfolding n f e by (simp only: prod_eq_iff fst_conv snd_conv simp_thms)
qed

section \<open>Properties of the pipelines\<close>


lemma BaselinePipeline_loop_sentinel:
  assumes "k0 \<le> k" and "k < k0 + length cs" and "\<And>m. invoke k m = None"
  shows "BaselinePipeline_loop loads invoke data k0 cs acc = Inl AttributeError"
  using assms(1,2)
proof (induction cs arbitrary: k0 acc)
  case Nil
  then show ?case by simp
next
  case (Cons c cs)
  obtain name d where c: "c = (name, d)" by (cases c)
  show ?case
  proof (cases "k0 = k")
    case True
    then show ?thesis unfolding c
      by (simp add: BaselinePipeline_pipeline_def py_bind_def assms(3))
  next
    case False
    with Cons.prems have "Suc k0 \<le> k" and "k < Suc k0 + length cs" by simp_all
    from Cons.IH [OF this] show ?thesis unfolding c
      by (simp add: BaselinePipeline_pipeline_def py_bind_def split: option.splits)
  qed
qed

lemma criteria_names_baseline [simp]:
  "py_getitem (baseline_assessment name score) ''criteria'' = Inr (PStr name)"
  by (simp add: baseline_assessment_def)

lemma criteria_names_eval [simp]:
  "py_getitem (eval_assessment name s f sc p) ''criteria'' = Inr (PStr name)"
  by (simp add: eval_assessment_def)

lemma py_bind_Inr_iff:
  "py_bind m f = Inr r \<longleftrightarrow> (\<exists>v. m = Inr v \<and> f v = Inr r)"
  by (cases m) (simp_all add: py_bind_def)



lemma EvalPipeline_loop_prefix:
  "EvalPipeline_loop loads invoke sm cr ics data k cs acc = Inr scores \<Longrightarrow>
   \<exists>new. scores = acc @ new"
proof (induction cs arbitrary: k acc)
  case Nil
  then show ?case by simp
next
  case (Cons c cs)
  from Cons.prems obtain score sel fil prot k' where
    "EvalPipeline_loop loads invoke sm cr ics data k' cs
       (acc @ [eval_assessment c sel fil score prot]) = Inr scores"
    by (auto simp: py_bind_Inr_iff)
  from Cons.IH [OF this] obtain new where
    "scores = (acc @ [eval_assessment c sel fil score prot]) @ new" by blast
  then show ?case by simp
qed

lemma EvalPipeline_loop_first:
  assumes "EvalPipeline_loop loads invoke sm cr ics data k (c # cs) [] = Inr scores"
  shows "\<exists>s f sc p rest. scores = eval_assessment c s f sc p # rest"
proof -
  from assms obtain score sel fil prot k' where
    "EvalPipeline_loop loads invoke sm cr ics data k' cs
       ([] @ [eval_assessment c sel fil score prot]) = Inr scores"
    by (auto simp: py_bind_Inr_iff)
  from EvalPipeline_loop_prefix [OF this] obtain new where
    "scores = eval_assessment c sel fil score prot # new" by auto
  then show ?thesis by blast
qed

lemma quality_step_eval_assessment:
  "quality_step w (eval_assessment c s f sc p) acc = Inl (KeyError ''certainty'')"
  by (simp add: quality_step_def eval_assessment_def py_bind_def)

lemma compute_quality_score_eval_assessment:
  "compute_quality_score (eval_assessment c s f sc p # rest) iw = Inl (KeyError ''certainty'')"
  by (simp add: compute_quality_score_def quality_step_eval_assessment py_bind_def Let_def)


text \<open>
  Claim C2 says that the three-step \<open>run\<close> returns the assessments together with their
  quality score. Each assessment that \<open>run\<close> builds has the keys criteria, selection,
  filter, score and protocol, and \<open>compute_quality_score\<close> reads the key certainty of
  every entry. So with at least one criterion loaded \<open>run\<close> never returns: whenever the
  loop over the criteria completes, the aggregation raises KeyError for the key
  certainty, in single-model and in multi-agent mode.
\<close>

theorem three_step_run_raises_key_error:
  assumes "self_criteria \<noteq> []"
  shows "(\<exists>e. EvalPipeline_run loads invoke single_model self_criteria samples data = Inl e)
    \<and> (\<forall>scores. EvalPipeline_loop loads invoke single_model self_criteria samples data 0
                   (map fst self_criteria) [] = Inr scores \<longrightarrow>
          EvalPipeline_run loads invoke single_model self_criteria samples data
            = Inl (KeyError ''certainty''))"
proof -
  from assms obtain c cs where cs: "map fst self_criteria = c # cs"
    by (cases self_criteria) auto
  have key: "EvalPipeline_run loads invoke single_model self_criteria samples data
      = Inl (KeyError ''certainty'')"
    if "EvalPipeline_loop loads invoke single_model self_criteria samples data 0
          (map fst self_criteria) [] = Inr scores" for scores
  proof -
    from that [unfolded cs] EvalPipeline_loop_first obtain s f sc p rest where
      "scores = eval_assessment c s f sc p # rest" by blast
    with that show ?thesis
      by (simp add: EvalPipeline_run_def py_bind_def compute_quality_score_eval_assessment)
  qed
  show ?thesis
  proof (cases "EvalPipeline_loop loads invoke single_model self_criteria samples data 0
          (map fst self_criteria) []")
    case (Inl e)
    then show ?thesis by (simp add: EvalPipeline_run_def py_bind_def)
  next
    case (Inr scores)
    with key [OF Inr] show ?thesis by simp
  qed
qed

theorem three_step_run_raises_key_error_witness:
  "EvalPipeline_run
     (\<lambda>s. if s = ''{}'' then Some (PDict []) else None) (\<lambda>k m. Some ''{}'') True
     [(''omission'', ''Missing content'')] [] \<lparr>transcript = ''t'', summary = ''s''\<rparr>
     = Inl (KeyError ''certainty'')"
proof -
  let ?loads = "\<lambda>s. if s = ''{}'' then Some (PDict []) else None"
  let ?run = "EvalPipeline_run ?loads (\<lambda>k m. Some ''{}'') True
     [(''omission'', ''Missing content'')] [] \<lparr>transcript = ''t'', summary = ''s''\<rparr>"
  have strip: "strip_code_fence ''{}'' = ''{}''" by code_simp
  have te: "EvalPipeline_task_execution ?loads (\<lambda>k m. Some ''{}'') True k sp up
      = Inr ((PDict [], PDict []), Suc k)" for k sp up
    by (simp add: EvalPipeline_task_execution_def strip)
  have "\<exists>scores. EvalPipeline_loop ?loads (\<lambda>k m. Some ''{}'') True
      [(''omission'', ''Missing content'')] [] \<lparr>transcript = ''t'', summary = ''s''\<rparr> 0
      (map fst [(''omission'', ''Missing content'')]) [] = Inr scores"
    by (simp add: EvalPipeline_pipeline_def te py_bind_def py_dict_get_def Let_def)
  then obtain scores where l: "EvalPipeline_loop ?loads (\<lambda>k m. Some ''{}'') True
      [(''omission'', ''Missing content'')] [] \<lparr>transcript = ''t'', summary = ''s''\<rparr> 0
      (map fst [(''omission'', ''Missing content'')]) [] = Inr scores" ..
  have ne: "[(''omission'', ''Missing content'')] \<noteq> []" by simp
  from three_step_run_raises_key_error [OF ne, THEN conjunct2, rule_format, OF l]
  show ?thesis .
qed









lemma three_step_undecodable_rating:
  assumes "criteria \<noteq> []" and "\<And>k m. invoke k m = Some content"
    and "loads (strip_code_fence content) = None"
  shows "EvalPipeline_run loads invoke True criteria samples data = Inl AttributeError"
proof -
  from assms(1) obtain c d rest where cs: "criteria = (c, d) # rest" by (cases criteria) auto
  have te: "EvalPipeline_task_execution loads invoke True k sp up =
      Inr ((PStr (strip_code_fence content), PStr (strip_code_fence content)), Suc k)"
    for k sp up
    by (simp add: EvalPipeline_task_execution_def assms(2,3) Let_def)
  show ?thesis
    by (simp add: EvalPipeline_run_def cs EvalPipeline_pipeline_def py_bind_def Let_def te)
qed

text \<open>
  Claim C3 says that a pipeline absorbs the sentinel None of the invoker and goes on.
  Every pipeline reads \<open>choices\<close> of the invoker's result without a check. In the
  one-by-one pipeline a sentinel at the call of any criterion makes \<open>run\<close> raise
  AttributeError, so the assessments of the criteria before it are lost and the criteria
  after it are not evaluated; the all-at-once and the three-step pipeline raise
  AttributeError on a sentinel at their first call. A malformed reply is absorbed by the
  one-by-one and the all-at-once pipeline, but not by the three-step pipeline in
  single-model mode: it keeps the raw text as the score and then calls \<open>get\<close> on it, which
  raises AttributeError.
\<close>

theorem sentinel_raises_attribute_error:
  "(k < length criteria \<and> (\<forall>m. invoke k m = None) \<longrightarrow>
      BaselinePipeline_run loads invoke criteria data = Inl AttributeError)
   \<and> ((\<forall>m. invoke 0 m = None) \<longrightarrow>
      SimpleBaselinePipeline_run loads invoke criteria data = Inl AttributeError)
   \<and> (criteria \<noteq> [] \<and> (\<forall>m. invoke 0 m = None) \<longrightarrow>
      EvalPipeline_run loads invoke single_model criteria samples data = Inl AttributeError)
   \<and> (criteria \<noteq> [] \<and> (\<forall>k m. invoke k m = Some content)
        \<and> loads (strip_code_fence content) = None \<longrightarrow>
      EvalPipeline_run loads invoke True criteria samples data = Inl AttributeError)"
proof (intro conjI impI, goal_cases)
  case 1
  then show ?case
    unfolding BaselinePipeline_run_def
    by (intro BaselinePipeline_loop_sentinel [of 0 k]) auto
next
  case 2
  then show ?case
    by (simp add: SimpleBaselinePipeline_run_def SimpleBaselinePipeline_pipeline_def py_bind_def)
next
  case 3
  then obtain c d rest where cs: "criteria = (c, d) # rest" by (cases criteria) auto
  from 3 have none: "invoke 0 m = None" for m by blast
  have "EvalPipeline_task_execution loads invoke single_model 0 sp up = Inl AttributeError"
    for sp up
    by (simp add: EvalPipeline_task_execution_def Panel_seek_brainstorming_def
        Panel_process_def Panel_call_gpt_def py_bind_def none)
  then show ?case
    by (simp add: EvalPipeline_run_def cs EvalPipeline_pipeline_def py_bind_def Let_def)
next
  case 4
  then show ?case by (intro three_step_undecodable_rating) auto
qed

theorem sentinel_raises_attribute_error_witness:
  "BaselinePipeline_run (\<lambda>s. if s = ''{}'' then Some (PDict []) else None)
     (\<lambda>k m. if k = 1 then None else Some ''{}'')
     [(''omission'', ''Missing content''), (''language'', ''Wrong wording''),
      (''repetition'', ''Repeated content'')]
     \<lparr>transcript = ''t'', summary = ''s''\<rparr> = Inl AttributeError
   \<and> SimpleBaselinePipeline_run (\<lambda>s. if s = ''{}'' then Some (PDict []) else None)
       (\<lambda>k m. None) [(''omission'', ''Missing content'')]
       \<lparr>transcript = ''t'', summary = ''s''\<rparr> = Inl AttributeError
   \<and> EvalPipeline_run (\<lambda>s. if s = ''{}'' then Some (PDict []) else None)
       (\<lambda>k m. None) False [(''omission'', ''Missing content'')] []
       \<lparr>transcript = ''t'', summary = ''s''\<rparr> = Inl AttributeError
   \<and> EvalPipeline_run (\<lambda>s. if s = ''{}'' then Some (PDict []) else None)
       (\<lambda>k m. Some ''no json'') True [(''omission'', ''Missing content'')] []
       \<lparr>transcript = ''t'', summary = ''s''\<rparr> = Inl AttributeError"
proof -
  let ?loads = "\<lambda>s. if s = ''{}'' then Some (PDict []) else None"
  let ?S = "\<lparr>transcript = ''t'', summary = ''s''\<rparr>"
  let ?C3 = "[(''omission'', ''Missing content''), (''language'', ''Wrong wording''),
      (''repetition'', ''Repeated content'')]"
  have a: "BaselinePipeline_run ?loads (\<lambda>k m. if k = 1 then None else Some ''{}'') ?C3 ?S
      = Inl AttributeError"
    using sentinel_raises_attribute_error
      [of 1 ?C3 "\<lambda>k m. if k = 1 then None else Some ''{}''" ?loads ?S, THEN conjunct1]
    by simp
  have b: "SimpleBaselinePipeline_run ?loads (\<lambda>k m. None) [(''omission'', ''Missing content'')] ?S
      = Inl AttributeError"
    using sentinel_raises_attribute_error
      [of 0 "[(''omission'', ''Missing content'')]" "\<lambda>k m. None" ?loads ?S,
       THEN conjunct2, THEN conjunct1]
    by simp
  have c: "EvalPipeline_run ?loads (\<lambda>k m. None) False [(''omission'', ''Missing content'')] [] ?S
      = Inl AttributeError"
    using sentinel_raises_attribute_error
      [of 0 "[(''omission'', ''Missing content'')]" "\<lambda>k m. None" ?loads ?S False "[]",
       THEN conjunct2, THEN conjunct2, THEN conjunct1]
    by simp
  have s2: "strip_code_fence ''no json'' = []" by code_simp
  have d: "EvalPipeline_run ?loads (\<lambda>k m. Some ''no json'') True
      [(''omission'', ''Missing content'')] [] ?S = Inl AttributeError"
    using sentinel_raises_attribute_error
      [of 0 "[(''omission'', ''Missing content'')]" "\<lambda>k m. Some ''no json''" ?loads ?S True "[]"
          "''no json''", THEN conjunct2, THEN conjunct2, THEN conjunct2]
    by (simp add: s2)
  from a b c d show ?thesis by (intro conjI)
qed

text \<open>
  A payload that neither begins nor ends with whitespace or with one of the characters
  of \<open>```json\<close> reaches the decoder unchanged, bare or fenced. Every JSON object and every
  JSON array is such a payload.
\<close>

lemma dropWhile_keeps:
  "s \<noteq> [] \<Longrightarrow> \<not> P (hd s) \<Longrightarrow> dropWhile P s = s"
  by (cases s) simp_all

lemma trim_between:
  assumes "\<forall>x \<in> set pre. P x" and "\<forall>x \<in> set suf. P x"
    and "s \<noteq> []" and "\<not> P (hd s)" and "\<not> P (last s)"
  shows "rev (dropWhile P (rev (dropWhile P (pre @ s @ suf)))) = s"
proof -
  from assms(1) have "dropWhile P (pre @ s @ suf) = dropWhile P (s @ suf)"
    by (simp add: dropWhile_append2)
  also have "\<dots> = s @ suf"
    using assms(3,4) by (intro dropWhile_keeps) simp_all
  finally have a: "dropWhile P (pre @ s @ suf) = s @ suf" .
  have "dropWhile P (rev (s @ suf)) = dropWhile P (rev suf @ rev s)"
    by simp
  also have "\<dots> = dropWhile P (rev s)"
    using assms(2) by (intro dropWhile_append2) simp
  also have "\<dots> = rev s"
    using assms(3,5) by (intro dropWhile_keeps) (simp_all add: hd_rev)
  finally show ?thesis by (simp add: a)
qed

lemma py_strip_between:
  assumes "\<forall>x \<in> set pre. py_isspace x" and "\<forall>x \<in> set suf. py_isspace x"
    and "s \<noteq> []" and "\<not> py_isspace (hd s)" and "\<not> py_isspace (last s)"
  shows "py_strip (pre @ s @ suf) = s"
  unfolding py_strip_def using assms by (rule trim_between)

lemma py_strip_chars_between:
  assumes "set pre \<subseteq> set chars" and "set suf \<subseteq> set chars"
    and "s \<noteq> []" and "hd s \<notin> set chars" and "last s \<notin> set chars"
  shows "py_strip_chars chars (pre @ s @ suf) = s"
  unfolding py_strip_chars_def
  using assms by (intro trim_between) auto

lemma fenced_payload_same_text:
  assumes ne: "payload \<noteq> []"
    and h: "hd payload \<notin> set ''```json''" and l: "last payload \<notin> set ''```json''"
    and hs: "\<not> py_isspace (hd payload)" and ls: "\<not> py_isspace (last payload)"
  shows "strip_code_fence (''```json'' @ [CHR 0x0A] @ payload @ [CHR 0x0A] @ ''```'') = payload
       \<and> strip_code_fence payload = payload"
proof -
  let ?F = "''```json'' @ [CHR 0x0A] @ payload @ [CHR 0x0A] @ ''```''"
  let ?M = "[CHR 0x0A] @ payload @ [CHR 0x0A]"
  have nl_space: "py_isspace (CHR 0x0A)" by (simp add: py_isspace_def)
  have tick: "\<not> py_isspace (CHR ''`'')" by (simp add: py_isspace_def)
  have F: "?F \<noteq> []" "hd ?F = CHR ''`''" "last ?F = CHR ''`''" by simp_all
  have 1: "py_strip ?F = ?F"
    using py_strip_between [of "[]" "[]" ?F] F tick by simp
  have 2: "py_strip_chars ''```json'' ?F = ?M"
    using py_strip_chars_between [of "''```json''" "''```json''" "''```''" ?M] by simp
  have 3: "py_strip_chars ''```'' ?M = ?M"
    using py_strip_chars_between [of "[]" "''```''" "[]" ?M] by simp
  have 4: "py_strip ?M = payload"
    using py_strip_between [of "[CHR 0x0A]" "[CHR 0x0A]" payload] ne hs ls nl_space by simp
  have fenced: "strip_code_fence ?F = payload"
    unfolding strip_code_fence_def 1 2 3 4 ..
  have 5: "py_strip payload = payload"
    using py_strip_between [of "[]" "[]" payload] ne hs ls by simp
  have 6: "py_strip_chars ''```json'' payload = payload"
    using py_strip_chars_between [of "[]" "''```json''" "[]" payload] ne h l by simp
  have 7: "py_strip_chars ''```'' payload = payload"
    using py_strip_chars_between [of "[]" "''```''" "[]" payload] ne h l by simp
  have bare: "strip_code_fence payload = payload"
    unfolding strip_code_fence_def 5 6 7 ..
  from fenced bare show ?thesis ..
qed

text \<open>
  Claim C5 says that a valid JSON payload decodes to the same value bare or in a code
  fence. \<open>strip("```json")\<close> removes the characters of its argument from both ends,
  among them the letter n: the bare payload \<open>null\<close> reaches the decoder as \<open>ull\<close>, which is
  not JSON, and the fenced payload reaches it as \<open>null\<close>. With a decoder that maps
  \<open>null\<close> to None and rejects \<open>ull\<close>, the one-by-one pipeline's score is the zeroed score
  for the bare payload and None for the fenced one, and the panel's answer is the raw
  text \<open>ull\<close> for the bare payload and None for the fenced one.
\<close>

theorem bare_null_payload_not_decoded:
  "strip_code_fence ''null'' = ''ull''
   \<and> strip_code_fence (''```json'' @ [CHR 0x0A] @ ''null'' @ [CHR 0x0A] @ ''```'') = ''null''
   \<and> BaselinePipeline_pipeline (\<lambda>s. if s = ''null'' then Some PNone else None)
        (\<lambda>k m. Some ''null'') 0 data name d = Inr zeroed_score
   \<and> BaselinePipeline_pipeline (\<lambda>s. if s = ''null'' then Some PNone else None)
        (\<lambda>k m. Some (''```json'' @ [CHR 0x0A] @ ''null'' @ [CHR 0x0A] @ ''```'')) 0 data name d
        = Inr PNone
   \<and> Panel_call_gpt (\<lambda>s. if s = ''null'' then Some PNone else None)
        (\<lambda>k m. Some ''null'') 0 sp up True = Inr (PStr ''ull'', 1)
   \<and> Panel_call_gpt (\<lambda>s. if s = ''null'' then Some PNone else None)
        (\<lambda>k m. Some (''```json'' @ [CHR 0x0A] @ ''null'' @ [CHR 0x0A] @ ''```'')) 0 sp up True
        = Inr (PNone, 1)"
proof -
  have bare: "strip_code_fence ''null'' = ''ull''" by code_simp
  have fenced:
    "strip_code_fence (''```json'' @ [CHR 0x0A] @ ''null'' @ [CHR 0x0A] @ ''```'') = ''null''"
    by code_simp
  have bare': "py_strip (py_strip_chars ''```'' (py_strip_chars ''```json'' (py_strip ''null'')))
      = ''ull''" using bare by (simp only: strip_code_fence_def)
  have fenced': "py_strip (py_strip_chars ''```'' (py_strip_chars ''```json''
      (py_strip (''```json'' @ [CHR 0x0A] @ ''null'' @ [CHR 0x0A] @ ''```'')))) = ''null''"
    using fenced by (simp only: strip_code_fence_def)
  show ?thesis
    unfolding BaselinePipeline_pipeline_def Panel_call_gpt_def Let_def
    by (simp only: bare fenced bare' fenced' option.case if_True if_False simp_thms)
       (simp del: append.simps append_Cons append_Nil)
qed

section \<open>Properties of the comparison run\<close>

lemma grouped_append_keys:
  "map fst (grouped_append grouped fb) = add_key (map fst grouped) (fb_criteria fb)"
proof -
  have "map fst (map (\<lambda>(k, v). if k = c then (k, v @ [fb]) else (k, v)) g) = map fst g"
    for c and g :: "(string \<times> feedback list) list"
    by (induction g) auto
  then show ?thesis by (simp add: grouped_append_def add_key_def)
qed

lemma foldl_grouped_append_keys:
  "map fst (foldl grouped_append grouped fl) = foldl add_key (map fst grouped) (map fb_criteria fl)"
  by (induction fl arbitrary: grouped) (simp_all add: grouped_append_keys)

lemma group_keys:
  "map fst (group_feedback_by_error_type fl) = first_occurrences (map fb_criteria fl)"
  by (simp add: group_feedback_by_error_type_def first_occurrences_def foldl_grouped_append_keys)

lemma fit_invoke_responding:
  "fit_invoke (\<lambda>k m. Some (reply k m)) msg events =
     (Inr (reply (length (filter is_call events)) msg), events @ [ModelCall msg])"
  by (simp add: fit_invoke_def)

lemma fit_invoke_events:
  "snd (fit_invoke invoke msg events) = events @ [ModelCall msg]"
  by (simp add: fit_invoke_def split: option.splits)

lemma criteria_loop_responding:
  "\<exists>fb'. criteria_loop (\<lambda>k m. Some (reply k m)) None cs fb events =
            (Inr fb', events @ concat (map assessment_events cs))
        \<and> map fb_criteria fb' = map fb_criteria fb @ map a_criteria cs"
proof (induction cs arbitrary: fb events)
  case Nil
  show ?case by (simp add: fit_return_def)
next
  case (Cons a cs)
  define q where "q = py_strip (reply (length (filter is_call events))
      (reasoning_message (a_reasoning a) []))"
  define fb1 where
    "fb1 = fb @ [Feedback (a_criteria a) (likert_score_feedback (a_rating a) 0) q]"
  have step: "criteria_loop (\<lambda>k m. Some (reply k m)) None (a # cs) fb events =
      criteria_loop (\<lambda>k m. Some (reply k m)) None cs fb1 (events @ assessment_events a)"
    by (simp add: human_for_def Let_def reasoning_feedback_def fit_bind_def
        fit_invoke_responding fit_return_def fit_log_def assessment_events_def fb1_def q_def)
  from Cons.IH [of fb1 "events @ assessment_events a"] obtain fb' where
    "criteria_loop (\<lambda>k m. Some (reply k m)) None cs fb1 (events @ assessment_events a) =
       (Inr fb', (events @ assessment_events a) @ concat (map assessment_events cs))"
    and "map fb_criteria fb' = map fb_criteria fb1 @ map a_criteria cs" by blast
  then show ?case unfolding step by (simp add: fb1_def)
qed

lemma reports_loop_responding:
  "\<exists>oq'. reports_loop loads (\<lambda>k m. Some (reply k m)) keys oq events =
            (Inr oq', events @ map (\<lambda>name. ModelCall (quality_message (PStr name))) keys)"
proof (induction keys arbitrary: oq events)
  case Nil
  show ?case by (simp add: fit_return_def)
next
  case (Cons k keys)
  have "\<exists>oq1. reports_loop loads (\<lambda>k m. Some (reply k m)) (k # keys) oq events =
      reports_loop loads (\<lambda>k m. Some (reply k m)) keys oq1
        (events @ [ModelCall (quality_message (PStr k))])"
    unfolding reports_loop.simps quality_report_def fit_bind_def fit_invoke_responding
      fit_return_def Let_def prod.case sum.case
    by (intro exI) (rule refl)
  then obtain oq1 where step:
    "reports_loop loads (\<lambda>k m. Some (reply k m)) (k # keys) oq events =
      reports_loop loads (\<lambda>k m. Some (reply k m)) keys oq1
        (events @ [ModelCall (quality_message (PStr k))])" ..
  from Cons.IH [of oq1 "events @ [ModelCall (quality_message (PStr k))]"]
  show ?case unfolding step by simp
qed

lemma samples_loop_responding:
  "\<exists>oq'. samples_loop loads (\<lambda>k m. Some (reply k m)) None scores oq events =
            (Inr oq', events @ expected_events scores)"
proof (induction scores arbitrary: oq events)
  case Nil
  show ?case by (simp add: fit_return_def expected_events_def)
next
  case (Cons s scores)
  obtain index as where s: "s = (index, as)" by (cases s)
  from criteria_loop_responding [of reply as "[]" events] obtain fb' where
    c: "criteria_loop (\<lambda>k m. Some (reply k m)) None as [] events =
          (Inr fb', events @ concat (map assessment_events as))"
    and n: "map fb_criteria fb' = map a_criteria as" by auto
  from reports_loop_responding
    [of loads reply "first_occurrences (map a_criteria as)" "[]"
        "events @ concat (map assessment_events as)"]
  obtain oq1 where
    r: "reports_loop loads (\<lambda>k m. Some (reply k m)) (first_occurrences (map a_criteria as)) []
          (events @ concat (map assessment_events as)) = (Inr oq1, events @ sample_events as)"
    by (auto simp: sample_events_def)
  from Cons.IH [of oq1 "events @ sample_events as"] obtain oq' where
    "samples_loop loads (\<lambda>k m. Some (reply k m)) None scores oq1 (events @ sample_events as) =
       (Inr oq', (events @ sample_events as) @ expected_events scores)" by blast
  then show ?case
    unfolding s
    by (simp add: working_human_def fit_bind_def c group_keys n r expected_events_def)
qed

lemma Fitting_run_responding:
  "Fitting_run loads (\<lambda>k m. Some (reply k m)) scores None =
     (Inr ([], []), expected_events scores)"
proof -
  from samples_loop_responding [of loads reply scores "[]" "[]"] obtain oq' where
    "samples_loop loads (\<lambda>k m. Some (reply k m)) None scores [] [] =
       (Inr oq', expected_events scores)" by auto
  then show ?thesis by (simp add: Fitting_run_def fit_bind_def fit_return_def)
qed

lemma Fitting_run_result:
  "fst (Fitting_run loads invoke scores human_scores) = Inr r \<Longrightarrow> r = ([], [])"
  by (auto simp: Fitting_run_def fit_bind_def fit_return_def Let_def split: prod.splits sum.splits)

lemma criteria_loop_prefix:
  "\<exists>p. snd (criteria_loop invoke None cs fb events) = events @ p
      \<and> prefix p (concat (map assessment_events cs))
      \<and> (\<forall>fb'. fst (criteria_loop invoke None cs fb events) = Inr fb' \<longrightarrow>
            p = concat (map assessment_events cs)
          \<and> map fb_criteria fb' = map fb_criteria fb @ map a_criteria cs)"
proof (induction cs arbitrary: fb events)
  case Nil
  show ?case by (simp add: fit_return_def)
next
  case (Cons a cs)
  let ?msg = "reasoning_message (a_reasoning a) []"
  show ?case
  proof (cases "invoke (length (filter is_call events)) ?msg")
    case None
    then have "criteria_loop invoke None (a # cs) fb events =
        (Inl AttributeError, events @ [ModelCall ?msg])"
      by (simp add: human_for_def Let_def reasoning_feedback_def fit_bind_def fit_invoke_def)
    then show ?thesis
      by (intro exI [of _ "[ModelCall ?msg]"]) (simp add: assessment_events_def)
  next
    case (Some content)
    define fb1 where "fb1 = fb @ [Feedback (a_criteria a)
        (likert_score_feedback (a_rating a) 0) (py_strip content)]"
    have step: "criteria_loop invoke None (a # cs) fb events =
        criteria_loop invoke None cs fb1 (events @ assessment_events a)"
      using Some
      by (simp add: human_for_def Let_def reasoning_feedback_def fit_bind_def fit_invoke_def
          fit_return_def fit_log_def assessment_events_def fb1_def)
    from Cons.IH [of fb1 "events @ assessment_events a"] obtain p where
      p: "snd (criteria_loop invoke None cs fb1 (events @ assessment_events a)) =
            (events @ assessment_events a) @ p"
      and pp: "prefix p (concat (map assessment_events cs))"
      and pr: "\<forall>fb'. fst (criteria_loop invoke None cs fb1 (events @ assessment_events a)) = Inr fb'
            \<longrightarrow> p = concat (map assessment_events cs)
              \<and> map fb_criteria fb' = map fb_criteria fb1 @ map a_criteria cs"
      by blast
    show ?thesis
      unfolding step
      using p pp pr
      by (intro exI [of _ "assessment_events a @ p"]) (simp add: fb1_def)
  qed
qed

lemma reports_loop_prefix:
  "\<exists>p. snd (reports_loop loads invoke keys oq events) = events @ p
      \<and> prefix p (map (\<lambda>name. ModelCall (quality_message (PStr name))) keys)
      \<and> (\<forall>oq'. fst (reports_loop loads invoke keys oq events) = Inr oq' \<longrightarrow>
            p = map (\<lambda>name. ModelCall (quality_message (PStr name))) keys)"
proof (induction keys arbitrary: oq events)
  case Nil
  show ?case by (simp add: fit_return_def)
next
  case (Cons k keys)
  let ?msg = "quality_message (PStr k)"
  show ?case
  proof (cases "invoke (length (filter is_call events)) ?msg")
    case None
    then have "reports_loop loads invoke (k # keys) oq events =
        (Inl AttributeError, events @ [ModelCall ?msg])"
      by (simp add: quality_report_def fit_bind_def fit_invoke_def)
    then show ?thesis
      by (intro exI [of _ "[ModelCall ?msg]"]) simp
  next
    case (Some content)
    have "\<exists>oq1. reports_loop loads invoke (k # keys) oq events =
        reports_loop loads invoke keys oq1 (events @ [ModelCall ?msg])"
      unfolding reports_loop.simps quality_report_def fit_bind_def fit_invoke_def Some
        fit_return_def Let_def prod.case sum.case option.case
      by (intro exI) (rule refl)
    then obtain oq1 where step: "reports_loop loads invoke (k # keys) oq events =
        reports_loop loads invoke keys oq1 (events @ [ModelCall ?msg])" ..
    from Cons.IH [of oq1 "events @ [ModelCall ?msg]"] obtain p where
      "snd (reports_loop loads invoke keys oq1 (events @ [ModelCall ?msg])) =
         (events @ [ModelCall ?msg]) @ p"
      "prefix p (map (\<lambda>name. ModelCall (quality_message (PStr name))) keys)"
      "\<forall>oq'. fst (reports_loop loads invoke keys oq1 (events @ [ModelCall ?msg])) = Inr oq'
         \<longrightarrow> p = map (\<lambda>name. ModelCall (quality_message (PStr name))) keys"
      by blast
    then show ?thesis
      unfolding step
      by (intro exI [of _ "ModelCall ?msg # p"]) simp
  qed
qed

lemma samples_loop_prefix:
  "\<exists>p. snd (samples_loop loads invoke None scores oq events) = events @ p
      \<and> prefix p (expected_events scores)"
proof (induction scores arbitrary: oq events)
  case Nil
  show ?case by (simp add: fit_return_def)
next
  case (Cons s scores)
  obtain index as where s: "s = (index, as)" by (cases s)
  let ?C = "concat (map assessment_events as)"
  let ?Q = "map (\<lambda>name. ModelCall (quality_message (PStr name)))
              (first_occurrences (map a_criteria as))"
  have exp: "expected_events (s # scores) = ?C @ ?Q @ expected_events scores"
    by (simp add: s expected_events_def sample_events_def)
  from criteria_loop_prefix [of invoke as "[]" events] obtain p where
    p: "snd (criteria_loop invoke None as [] events) = events @ p"
    and pp: "prefix p ?C"
    and pr: "\<forall>fb'. fst (criteria_loop invoke None as [] events) = Inr fb' \<longrightarrow>
          p = ?C \<and> map fb_criteria fb' = map a_criteria as"
    by auto
  show ?case
  proof (cases "criteria_loop invoke None as [] events")
    case (Pair res ev1)
    show ?thesis
    proof (cases res)
      case (Inl e)
      with Pair p have "snd (samples_loop loads invoke None (s # scores) oq events) = events @ p"
        by (simp add: s working_human_def fit_bind_def)
      moreover from pp have "prefix p (expected_events (s # scores))"
        unfolding exp by (rule prefix_prefix)
      ultimately show ?thesis by blast
    next
      case (Inr fb')
      with Pair p pr have ev1: "ev1 = events @ ?C"
        and names: "map fb_criteria fb' = map a_criteria as" by auto
      have keys: "map fst (group_feedback_by_error_type fb') =
          first_occurrences (map a_criteria as)"
        by (simp add: group_keys names)
      from reports_loop_prefix [of loads invoke "first_occurrences (map a_criteria as)" "[]" ev1]
      obtain q where
        q: "snd (reports_loop loads invoke (first_occurrences (map a_criteria as)) [] ev1)
              = ev1 @ q"
        and qp: "prefix q ?Q"
        and qr: "\<forall>oq'. fst (reports_loop loads invoke (first_occurrences (map a_criteria as))
                   [] ev1) = Inr oq' \<longrightarrow> q = ?Q"
        by blast
      show ?thesis
      proof (cases "reports_loop loads invoke (first_occurrences (map a_criteria as)) [] ev1")
        case (Pair res2 ev2)
        note P2 = this
        show ?thesis
        proof (cases res2)
          case (Inl e)
          with P2 q have "snd (samples_loop loads invoke None (s # scores) oq events)
              = events @ ?C @ q"
            using \<open>criteria_loop invoke None as [] events = (res, ev1)\<close> \<open>res = Inr fb'\<close>
            by (simp add: s working_human_def fit_bind_def keys ev1)
          moreover from qp have "prefix (?C @ q) (expected_events (s # scores))"
            unfolding exp by (simp add: prefix_prefix)
          ultimately show ?thesis by blast
        next
          case (Inr oq1)
          with P2 q qr have ev2: "ev2 = events @ ?C @ ?Q" by (auto simp: ev1)
          from Cons.IH [of oq1 ev2] obtain r where
            r: "snd (samples_loop loads invoke None scores oq1 ev2) = ev2 @ r"
            and rp: "prefix r (expected_events scores)" by blast
          have "snd (samples_loop loads invoke None (s # scores) oq events)
              = events @ ?C @ ?Q @ r"
            using \<open>criteria_loop invoke None as [] events = (res, ev1)\<close> \<open>res = Inr fb'\<close>
              P2 Inr r
            by (simp add: s working_human_def fit_bind_def keys ev2)
          moreover from rp have "prefix (?C @ ?Q @ r) (expected_events (s # scores))"
            unfolding exp by simp
          ultimately show ?thesis by blast
        qed
      qed
    qed
  qed
qed

lemma Fitting_run_prefix:
  "prefix (snd (Fitting_run loads invoke scores None)) (expected_events scores)"
proof -
  from samples_loop_prefix [of loads invoke scores "[]" "[]"] obtain p where
    "snd (samples_loop loads invoke None scores [] []) = p" "prefix p (expected_events scores)"
    by auto
  then show ?thesis
    by (auto simp: Fitting_run_def fit_bind_def fit_return_def Let_def
        split: prod.splits sum.splits)
qed

lemma criteria_loop_defaults:
  "list_all (\<lambda>a. human_for wh (a_criteria a) = Inr (0, [])) cs \<Longrightarrow>
   criteria_loop invoke wh cs fb = criteria_loop invoke None cs fb"
proof (induction cs arbitrary: fb)
  case Nil
  show ?case by simp
next
  case (Cons a cs)
  then show ?case by (simp add: Let_def human_for_def [of None])
qed

lemma samples_loop_defaults:
  "list_all (\<lambda>(index, as). \<exists>wh. working_human hs index = Inr wh
       \<and> list_all (\<lambda>a. human_for wh (a_criteria a) = Inr (0, [])) as) scores \<Longrightarrow>
   samples_loop loads invoke hs scores oq = samples_loop loads invoke None scores oq"
proof (induction scores arbitrary: oq)
  case Nil
  show ?case by simp
next
  case (Cons s scores)
  obtain index as where s: "s = (index, as)" by (cases s)
  from Cons.prems obtain wh where wh: "working_human hs index = Inr wh"
    and d: "list_all (\<lambda>a. human_for wh (a_criteria a) = Inr (0, [])) as"
    and rest: "list_all (\<lambda>(index, as). \<exists>wh. working_human hs index = Inr wh
       \<and> list_all (\<lambda>a. human_for wh (a_criteria a) = Inr (0, [])) as) scores"
    by (auto simp: s)
  have ih: "samples_loop loads invoke hs scores = samples_loop loads invoke None scores"
    by (rule ext) (rule Cons.IH [OF rest])
  show ?case
    unfolding s
    by (simp add: wh criteria_loop_defaults [OF d] ih working_human_def [of None])
qed

lemma Fitting_run_empty_human_scores:
  "Fitting_run loads invoke scores (Some []) = Fitting_run loads invoke scores None"
proof -
  have "samples_loop loads invoke (Some []) scores oq = samples_loop loads invoke None scores oq"
    for oq
    by (rule samples_loop_defaults)
       (simp add: list_all_iff working_human_def human_for_def split_beta)
  then show ?thesis by (simp add: Fitting_run_def)
qed

lemma Fitting_run_found_no_errors:
  assumes "found_no_errors rows scores"
  shows "Fitting_run loads invoke scores (Some rows) = Fitting_run loads invoke scores None"
proof -
  have "list_all (\<lambda>(index, as). \<exists>wh. working_human (Some rows) index = Inr wh
       \<and> list_all (\<lambda>a. human_for wh (a_criteria a) = Inr (0, [])) as) scores"
    unfolding list_all_iff
  proof (intro ballI, clarify)
    fix index as
    assume "(index, as) \<in> set scores"
    with assms have i: "index < length rows" and ne: "rows ! index \<noteq> []"
      and f: "\<forall>a \<in> set as. map_of (rows ! index) (a_criteria a) = Some (Human 0 [])"
      by (auto simp: found_no_errors_def list_all_iff)
    from i have "rows \<noteq> []" by auto
    with i have "working_human (Some rows) index = Inr (Some (rows ! index))"
      by (simp add: working_human_def)
    moreover from ne f
    have "\<forall>a \<in> set as. human_for (Some (rows ! index)) (a_criteria a) = Inr (0, [])"
      by (simp add: human_for_def)
    ultimately show "\<exists>wh. working_human (Some rows) index = Inr wh
       \<and> (\<forall>a \<in> set as. human_for wh (a_criteria a) = Inr (0, []))" by blast
  qed
  from samples_loop_defaults [OF this] show ?thesis by (simp add: Fitting_run_def)
qed

text \<open>
  Claim C9 says that \<open>run\<close> asks for one quality report per criterion group, with the
  group's discrepancy records as input, and returns the reports. The loop over the groups
  iterates the dict, so each request carries the criterion name and not the records; the
  reports go to \<open>overall_quality\<close>, and \<open>run\<close> returns \<open>overall_reports\<close> twice, which is
  never filled. Whatever the input, \<open>run\<close> raises or returns two empty lists; when every
  call is answered it returns two empty lists after the expected events, as for a sample
  with the criteria omission and language.
\<close>

theorem fitting_run_returns_no_reports:
  "((\<exists>e. fst (Fitting_run loads invoke scores human_scores) = Inl e)
      \<or> fst (Fitting_run loads invoke scores human_scores) = Inr ([], []))
   \<and> Fitting_run loads (\<lambda>k m. Some (reply k m)) scores None
       = (Inr ([], []), expected_events scores)
   \<and> Fitting_run loads (\<lambda>k m. Some (reply k m))
        [(0, [Assessment ''omission'' 2 ''r1'', Assessment ''language'' 0 ''r2''])] None
       = (Inr ([], []),
          [ModelCall (reasoning_message ''r1'' []),
           LogDistance ''omission'' (likert_score_feedback 2 0),
           ModelCall (reasoning_message ''r2'' []),
           LogDistance ''language'' (likert_score_feedback 0 0),
           ModelCall (quality_message (PStr ''omission'')),
           ModelCall (quality_message (PStr ''language''))])"
proof (intro conjI)
  show "(\<exists>e. fst (Fitting_run loads invoke scores human_scores) = Inl e)
      \<or> fst (Fitting_run loads invoke scores human_scores) = Inr ([], [])"
  proof (cases "fst (Fitting_run loads invoke scores human_scores)")
    case (Inl e)
    then show ?thesis by blast
  next
    case (Inr r)
    with Fitting_run_result [OF Inr] show ?thesis by simp
  qed
next
  show "Fitting_run loads (\<lambda>k m. Some (reply k m)) scores None
       = (Inr ([], []), expected_events scores)"
    by (rule Fitting_run_responding)
next
  show "Fitting_run loads (\<lambda>k m. Some (reply k m))
        [(0, [Assessment ''omission'' 2 ''r1'', Assessment ''language'' 0 ''r2''])] None
       = (Inr ([], []),
          [ModelCall (reasoning_message ''r1'' []),
           LogDistance ''omission'' (likert_score_feedback 2 0),
           ModelCall (reasoning_message ''r2'' []),
           LogDistance ''language'' (likert_score_feedback 0 0),
           ModelCall (quality_message (PStr ''omission'')),
           ModelCall (quality_message (PStr ''language''))])"
    unfolding Fitting_run_responding
    by (simp add: expected_events_def sample_events_def assessment_events_def
        first_occurrences_def add_key_def)
qed

text \<open>
  Claim C10. With human scores that are None or empty, the events of a run are an initial
  part of the expected events, and all of them when every call of the invoker is
  answered: for every assessment the reasoning comparison against an empty human
  reasoning and the logged distance to the human rating 0. That distance is "Error
  Detection Discrepancy" for a model rating of at least 1 and "No Difference" for the
  model rating 0. The run is the same as with the scores of a human who found no errors:
  impact 0 and an empty reasoning for every criterion of every sample.
\<close>

theorem missing_human_scores_default_to_no_errors:
  assumes "human_scores = None \<or> human_scores = Some []"
  shows "(\<exists>rest. expected_events scores
            = snd (Fitting_run loads invoke scores human_scores) @ rest)
    \<and> Fitting_run loads (\<lambda>k m. Some (reply k m)) scores human_scores
        = (Inr ([], []), expected_events scores)
    \<and> (\<forall>a. assessment_events a =
          [ModelCall (reasoning_message (a_reasoning a) []),
           LogDistance (a_criteria a) (likert_score_feedback (a_rating a) 0)])
    \<and> (\<forall>m. 1 \<le> m \<longrightarrow> fst (likert_score_feedback m 0) = ''Error Detection Discrepancy'')
    \<and> fst (likert_score_feedback 0 0) = ''No Difference''
    \<and> (\<forall>rows. found_no_errors rows scores \<longrightarrow>
          Fitting_run loads invoke scores (Some rows)
            = Fitting_run loads invoke scores human_scores)"
proof -
  have eq: "Fitting_run loads i scores human_scores = Fitting_run loads i scores None" for i
    using assms by (auto simp: Fitting_run_empty_human_scores)
  have a: "\<exists>rest. expected_events scores
            = snd (Fitting_run loads invoke scores human_scores) @ rest"
    using Fitting_run_prefix [of loads invoke scores] by (simp add: eq prefix_def)
  have b: "Fitting_run loads (\<lambda>k m. Some (reply k m)) scores human_scores
        = (Inr ([], []), expected_events scores)"
    by (simp add: eq Fitting_run_responding)
  have c: "\<forall>m. 1 \<le> m \<longrightarrow> fst (likert_score_feedback m 0) = ''Error Detection Discrepancy''"
    by (simp add: likert_category)
  have d: "fst (likert_score_feedback 0 0) = ''No Difference''"
    by (simp add: likert_category)
  have e: "\<forall>rows. found_no_errors rows scores \<longrightarrow>
          Fitting_run loads invoke scores (Some rows)
            = Fitting_run loads invoke scores human_scores"
    by (simp add: eq Fitting_run_found_no_errors)
  from a b c d e show ?thesis by (simp add: assessment_events_def)
qed

theorem missing_human_scores_default_to_no_errors_witness:
  "Fitting_run (\<lambda>s. None) (\<lambda>k m. Some ''ok'')
     [(0, [Assessment ''omission'' 2 ''r1'', Assessment ''language'' 0 ''r2''])] (Some [])
   = (Inr ([], []),
      [ModelCall (reasoning_message ''r1'' []),
       LogDistance ''omission''
         (''Error Detection Discrepancy'', ''Metric: 2 vs. Human: 0 (Metric detects an error).''),
       ModelCall (reasoning_message ''r2'' []),
       LogDistance ''language''
         (''No Difference'', ''Scores match exactly. (Human: 0; Metric: 0)''),
       ModelCall (quality_message (PStr ''omission'')),
       ModelCall (quality_message (PStr ''language''))])
   \<and> Fitting_run (\<lambda>s. None) (\<lambda>k m. Some ''ok'')
       [(0, [Assessment ''omission'' 2 ''r1'', Assessment ''language'' 0 ''r2''])]
       (Some [[(''omission'', Human 0 []), (''language'', Human 0 [])]])
     = Fitting_run (\<lambda>s. None) (\<lambda>k m. Some ''ok'')
       [(0, [Assessment ''omission'' 2 ''r1'', Assessment ''language'' 0 ''r2''])] (Some [])"
proof -
  let ?SC = "[(0::nat, [Assessment ''omission'' 2 ''r1'', Assessment ''language'' 0 ''r2''])]"
  have hs: "Some [] = None \<or> Some [] = Some ([] :: (string \<times> human_judgment) list list)"
    by simp
  note T = missing_human_scores_default_to_no_errors
    [OF hs, of ?SC "\<lambda>s. None" "\<lambda>k m. Some ''ok''" "\<lambda>k m. ''ok''"]
  have l2: "likert_score_feedback 2 0 =
      (''Error Detection Discrepancy'', ''Metric: 2 vs. Human: 0 (Metric detects an error).'')"
    by code_simp
  have l0: "likert_score_feedback 0 0 =
      (''No Difference'', ''Scores match exactly. (Human: 0; Metric: 0)'')"
    by code_simp
  have ex: "expected_events ?SC =
      [ModelCall (reasoning_message ''r1'' []),
       LogDistance ''omission''
         (''Error Detection Discrepancy'', ''Metric: 2 vs. Human: 0 (Metric detects an error).''),
       ModelCall (reasoning_message ''r2'' []),
       LogDistance ''language''
         (''No Difference'', ''Scores match exactly. (Human: 0; Metric: 0)''),
       ModelCall (quality_message (PStr ''omission'')),
       ModelCall (quality_message (PStr ''language''))]"
    by (simp add: expected_events_def sample_events_def assessment_events_def
        first_occurrences_def add_key_def l2 l0)
  have a: "Fitting_run (\<lambda>s. None) (\<lambda>k m. Some ''ok'') ?SC (Some [])
      = (Inr ([], []), expected_events ?SC)"
    using T by (rule conjunct1 [OF conjunct2])
  have fne: "found_no_errors [[(''omission'', Human 0 []), (''language'', Human 0 [])]] ?SC"
    by (simp add: found_no_errors_def)
  have b: "Fitting_run (\<lambda>s. None) (\<lambda>k m. Some ''ok'') ?SC
       (Some [[(''omission'', Human 0 []), (''language'', Human 0 [])]])
     = Fitting_run (\<lambda>s. None) (\<lambda>k m. Some ''ok'') ?SC (Some [])"
    using T [THEN conjunct2, THEN conjunct2, THEN conjunct2, THEN conjunct2, THEN conjunct2,
             rule_format, OF fne] .
  from a b show ?thesis unfolding ex by (intro conjI)
qed

end
